theory Spec2Isabelle
  imports Complex_Main "HOL-Library.Word"
begin

section \<open>The shaped texture of src/compositor/meta-shaped-texture.c\<close>

text \<open>
  A shallow embedding of the C actor that draws a window's texture through a shape mask.
  C integers (\<open>gint\<close>, \<open>gint64\<close>) are \<open>int\<close> and \<open>guint\<close> is \<open>nat\<close>: the
  timestamps are monotonic microseconds, the counter stops at a constant, and the
  coordinates of a rectangle of a cairo region and the size of a texture fit 32 bits
  with their sums, so no operation on them wraps.  A rectangle that a caller passes in
  (the damage rectangle of an update, the clip of the flattened image) has \<open>gint\<close>
  fields whose sums need not fit: where the code adds them, the model takes the sums
  modulo \<open>2 ^ 32\<close> (\<open>gint_edges\<close>).  \<open>guchar\<close> is \<open>8 word\<close>.  A pointer that may be
  \<open>NULL\<close> is an \<open>option\<close>.  The texture tower (\<open>paint_tower\<close>) is another file's object and
  is not a field of the state.
\<close>

subsection \<open>Constants\<close>

definition G_USEC_PER_SEC :: int where
  "G_USEC_PER_SEC = 1000000"

definition MAX_MIPMAPPING_FPS :: int where
  "MAX_MIPMAPPING_FPS = 5"

definition MIN_MIPMAP_AGE_USEC :: int where
  "MIN_MIPMAP_AGE_USEC = G_USEC_PER_SEC div MAX_MIPMAPPING_FPS"

definition MIN_FAST_UPDATES_BEFORE_UNMIPMAP :: nat where
  "MIN_FAST_UPDATES_BEFORE_UNMIPMAP = 20"

definition MAX_RECTS :: nat where
  "MAX_RECTS = 16"

subsection \<open>Data\<close>

record cairo_rectangle_int =
  rect_x :: int
  rect_y :: int
  rect_width :: int
  rect_height :: int

text \<open>
  A \<open>cairo_region_t\<close> is read through \<open>cairo_region_num_rectangles\<close> and
  \<open>cairo_region_get_rectangle\<close>: it is the list of its rectangles.
\<close>

type_synonym cairo_region = "cairo_rectangle_int list"

text \<open>
  A \<open>cairo_path_t\<close> is only ever filled with an opaque source onto the 8-bit mask: it
  is the coverage that the fill gives each pixel.
\<close>

type_synonym cairo_path = "int \<Rightarrow> int \<Rightarrow> 8 word"

text \<open>
  A \<open>CoglTexture\<close> is read through its width and height and through
  \<open>meta_texture_rectangle_check\<close>; the three are its fields.
\<close>

record CoglTexture =
  cogl_texture_get_width :: nat
  cogl_texture_get_height :: nat
  meta_texture_rectangle_check :: bool

text \<open>The mask texture, with the A8 data it was created from.\<close>

record MaskTexture =
  mask_tex_width :: nat
  mask_tex_height :: nat
  mask_tex_stride :: nat
  mask_tex_data :: "8 word list"
  mask_tex_rectangle :: bool

record CoglPipeline =
  layer0 :: "CoglTexture option"
  layer1 :: "MaskTexture option"

record MetaShapedTexturePrivate =
  pixmap :: nat
  texture :: "CoglTexture option"
  mask_texture :: "MaskTexture option"
  pipeline :: "CoglPipeline option"
  pipeline_unshaped :: "CoglPipeline option"
  clip_region :: "cairo_region option"
  unobscured_region :: "cairo_region option"
  shape_region :: "cairo_region option"
  overlay_region :: "cairo_region option"
  overlay_path :: "cairo_path option"
  tex_width :: nat
  tex_height :: nat
  mask_width :: nat
  mask_height :: nat
  prev_invalidation :: int
  last_invalidation :: int
  fast_updates :: nat
  remipmap_timeout_id :: nat
  earliest_remipmap :: int
  create_mipmaps :: bool

text \<open>
  \<open>meta_shaped_texture_init\<close>: the private structure of a GObject instance is
  zero-filled, then the listed fields are set.
\<close>

definition meta_shaped_texture_init :: MetaShapedTexturePrivate where
  "meta_shaped_texture_init =
     \<lparr> pixmap = 0, texture = None, mask_texture = None, pipeline = None,
       pipeline_unshaped = None,
       clip_region = None, unobscured_region = None, shape_region = None,
       overlay_region = None, overlay_path = None,
       tex_width = 0, tex_height = 0, mask_width = 0, mask_height = 0,
       prev_invalidation = 0, last_invalidation = 0, fast_updates = 0,
       remipmap_timeout_id = 0, earliest_remipmap = 0, create_mipmaps = True \<rparr>"

subsection \<open>The invalidation timeline\<close>

text \<open>
  The timing block of \<open>meta_shaped_texture_update_area\<close> (the statements between the
  tower update and the test of \<open>unobscured_region\<close>); \<open>now\<close> is what
  \<open>g_get_monotonic_time\<close> returns.
\<close>

definition record_update :: "int \<Rightarrow> MetaShapedTexturePrivate \<Rightarrow> MetaShapedTexturePrivate" where
  "record_update now priv =
     (let priv = priv\<lparr>prev_invalidation := last_invalidation priv\<rparr>;
          priv = priv\<lparr>last_invalidation := now\<rparr>
      in if prev_invalidation priv \<noteq> 0 then
           (let interval = last_invalidation priv - prev_invalidation priv;
                fast_update = (interval < MIN_MIPMAP_AGE_USEC)
            in if \<not> fast_update then priv\<lparr>fast_updates := 0\<rparr>
               else if fast_updates priv < MIN_FAST_UPDATES_BEFORE_UNMIPMAP
                    then priv\<lparr>fast_updates := fast_updates priv + 1\<rparr>
               else priv)
         else priv)"

subsection \<open>Choosing the paint texture\<close>

text \<open>
  The block of \<open>meta_shaped_texture_paint\<close> from the test of \<open>create_mipmaps\<close> to the
  arming of the remipmap timeout.  \<open>tower_tex\<close> is what
  \<open>meta_texture_tower_get_paint_texture\<close> returns when it is called (the tower is another
  file's object; it may have no texture to give), \<open>new_id\<close> what \<open>g_timeout_add\<close> returns.
  The first component is \<open>paint_tex\<close>; \<open>None\<close> there is the early \<open>return\<close>.
\<close>

definition mipmap_paint_texture ::
    "MetaShapedTexturePrivate \<Rightarrow> int \<Rightarrow> CoglTexture option \<Rightarrow> CoglTexture option" where
  "mipmap_paint_texture priv now tower_tex =
     (if create_mipmaps priv \<and> last_invalidation priv \<noteq> 0 then
        (let age = now - last_invalidation priv
         in if age \<ge> MIN_MIPMAP_AGE_USEC \<or>
               fast_updates priv < MIN_FAST_UPDATES_BEFORE_UNMIPMAP
            then tower_tex else None)
      else None)"

definition select_paint_texture ::
    "MetaShapedTexturePrivate \<Rightarrow> int \<Rightarrow> CoglTexture option \<Rightarrow> nat \<Rightarrow>
     CoglTexture option \<times> MetaShapedTexturePrivate" where
  "select_paint_texture priv now tower_tex new_id =
     (case mipmap_paint_texture priv now tower_tex of
        Some paint_tex \<Rightarrow> (Some paint_tex, priv)
      | None \<Rightarrow>
          (case texture priv of
             None \<Rightarrow> (None, priv)
           | Some paint_tex \<Rightarrow>
               (Some paint_tex,
                if create_mipmaps priv then
                  (let priv = priv\<lparr>earliest_remipmap := now + MIN_MIPMAP_AGE_USEC - 1000\<rparr>
                   in if remipmap_timeout_id priv = 0
                      then priv\<lparr>remipmap_timeout_id := new_id\<rparr> else priv)
                else priv)))"

text \<open>
  The condition under which the paint asks the tower for a texture, as the two nested
  tests of the source state it.
\<close>

definition should_use_mipmap :: "MetaShapedTexturePrivate \<Rightarrow> int \<Rightarrow> bool" where
  "should_use_mipmap priv now =
     (if create_mipmaps priv \<and> last_invalidation priv \<noteq> 0 then
        (let age = now - last_invalidation priv
         in age \<ge> MIN_MIPMAP_AGE_USEC \<or>
            fast_updates priv < MIN_FAST_UPDATES_BEFORE_UNMIPMAP)
      else False)"

subsection \<open>Rectangles and regions\<close>

text \<open>The pixels of a rectangle, and of a region.\<close>

definition rect_points :: "cairo_rectangle_int \<Rightarrow> (int \<times> int) set" where
  "rect_points r =
     {(px, py). rect_x r \<le> px \<and> px < rect_x r + rect_width r \<and>
                rect_y r \<le> py \<and> py < rect_y r + rect_height r}"

definition region_points :: "cairo_region \<Rightarrow> (int \<times> int) set" where
  "region_points region = (\<Union>r \<in> set region. rect_points r)"

text \<open>
  \<open>gdk_rectangle_intersect (src1, src2, dest)\<close> of GDK: the returned flag and what
  \<open>dest\<close> holds afterwards.  Both callers pass the second rectangle as \<open>dest\<close> too; GDK
  reads both sources before it writes.
\<close>

definition gdk_rectangle_intersect ::
    "cairo_rectangle_int \<Rightarrow> cairo_rectangle_int \<Rightarrow> cairo_rectangle_int \<Rightarrow>
     bool \<times> cairo_rectangle_int" where
  "gdk_rectangle_intersect src1 src2 dest =
     (let dest_x = max (rect_x src1) (rect_x src2);
          dest_y = max (rect_y src1) (rect_y src2);
          dest_x2 = min (rect_x src1 + rect_width src1) (rect_x src2 + rect_width src2);
          dest_y2 = min (rect_y src1 + rect_height src1) (rect_y src2 + rect_height src2)
      in if dest_x2 > dest_x \<and> dest_y2 > dest_y then
           (True, \<lparr> rect_x = dest_x, rect_y = dest_y,
                    rect_width = dest_x2 - dest_x, rect_height = dest_y2 - dest_y \<rparr>)
         else (False, dest\<lparr>rect_width := 0, rect_height := 0\<rparr>))"

text \<open>
  32-bit arithmetic on the fields of a rectangle that a caller passes in.  GDK and
  pixman both compute the far edges \<open>x + width\<close> and \<open>y + height\<close> of such a rectangle
  in 32 bits, where the sum wraps around; \<open>gint_edges\<close> is the rectangle with the edges
  they get.  A rectangle whose fields and sums fit is left as it is.
\<close>

definition gint_wrap :: "int \<Rightarrow> int" where
  "gint_wrap v = (v + 2147483648) mod 4294967296 - 2147483648"

definition fits_gint :: "int \<Rightarrow> bool" where
  "fits_gint v = (- 2147483648 \<le> v \<and> v \<le> 2147483647)"

definition rectangle_fits_gint :: "cairo_rectangle_int \<Rightarrow> bool" where
  "rectangle_fits_gint r =
     (fits_gint (rect_x r) \<and> fits_gint (rect_y r) \<and>
      fits_gint (rect_width r) \<and> fits_gint (rect_height r) \<and>
      fits_gint (rect_x r + rect_width r) \<and> fits_gint (rect_y r + rect_height r))"

definition gint_edges :: "cairo_rectangle_int \<Rightarrow> cairo_rectangle_int" where
  "gint_edges r =
     r\<lparr>rect_width := gint_wrap (rect_x r + rect_width r) - rect_x r,
       rect_height := gint_wrap (rect_y r + rect_height r) - rect_y r\<rparr>"

text \<open>
  The cairo region functions the file calls.  A region holds no empty rectangle
  (\<open>region_ok\<close>), so it is empty when it has no rectangle.
\<close>

definition region_ok :: "cairo_region \<Rightarrow> bool" where
  "region_ok region = list_all (\<lambda>r. 0 < rect_width r \<and> 0 < rect_height r) region"

definition cairo_region_num_rectangles :: "cairo_region \<Rightarrow> nat" where
  "cairo_region_num_rectangles region = length region"

definition cairo_region_is_empty :: "cairo_region \<Rightarrow> bool" where
  "cairo_region_is_empty region = (cairo_region_num_rectangles region = 0)"

definition cairo_region_copy :: "cairo_region \<Rightarrow> cairo_region" where
  "cairo_region_copy region = region"

definition rectangle_intersection ::
    "cairo_rectangle_int \<Rightarrow> cairo_rectangle_int \<Rightarrow> cairo_rectangle_int option" where
  "rectangle_intersection a b =
     (let x1 = max (rect_x a) (rect_x b);
          y1 = max (rect_y a) (rect_y b);
          x2 = min (rect_x a + rect_width a) (rect_x b + rect_width b);
          y2 = min (rect_y a + rect_height a) (rect_y b + rect_height b)
      in if x1 < x2 \<and> y1 < y2
         then Some \<lparr> rect_x = x1, rect_y = y1, rect_width = x2 - x1, rect_height = y2 - y1 \<rparr>
         else None)"

definition cairo_region_intersect_rectangle ::
    "cairo_region \<Rightarrow> cairo_rectangle_int \<Rightarrow> cairo_region" where
  "cairo_region_intersect_rectangle region rectangle =
     List.map_filter (\<lambda>r. rectangle_intersection r rectangle) region"

definition bounding_box ::
    "cairo_rectangle_int \<Rightarrow> cairo_rectangle_int \<Rightarrow> cairo_rectangle_int" where
  "bounding_box a b =
     (let x1 = min (rect_x a) (rect_x b);
          y1 = min (rect_y a) (rect_y b);
          x2 = max (rect_x a + rect_width a) (rect_x b + rect_width b);
          y2 = max (rect_y a + rect_height a) (rect_y b + rect_height b)
      in \<lparr> rect_x = x1, rect_y = y1, rect_width = x2 - x1, rect_height = y2 - y1 \<rparr>)"

text \<open>
  The extents of a region: the smallest rectangle around its rectangles.  The file asks
  for the extents of a region it has found not empty; the value on the empty region is
  pixman's empty box.
\<close>

definition cairo_region_get_extents :: "cairo_region \<Rightarrow> cairo_rectangle_int" where
  "cairo_region_get_extents region =
     (case region of
        [] \<Rightarrow> \<lparr> rect_x = 0, rect_y = 0, rect_width = 0, rect_height = 0 \<rparr>
      | r # rs \<Rightarrow> foldl bounding_box r rs)"

subsection \<open>Damage\<close>

text \<open>The calls an update makes on its collaborators, in order.\<close>

datatype update_call =
    cogl_texture_pixmap_x11_update_area int int int int
  | meta_texture_tower_update_area int int int int
  | clutter_actor_queue_redraw_with_clip cairo_rectangle_int

text \<open>
  The last block of \<open>meta_shaped_texture_update_area\<close>, from the test of
  \<open>unobscured_region\<close> on: the returned flag and the redraws queued.
  \<open>cairo_region_intersect_rectangle\<close> hands the fields of \<open>clip\<close>, which are the caller's,
  to pixman, which adds them in 32 bits and takes a rectangle whose far edge is not
  beyond its near edge as empty.
\<close>

definition damage_redraw ::
    "cairo_rectangle_int \<Rightarrow> cairo_region option \<Rightarrow> bool \<times> update_call list" where
  "damage_redraw clip unobscured =
     (case unobscured of
        Some region \<Rightarrow>
          if cairo_region_is_empty region then (False, [])
          else
            (let intersection = cairo_region_copy region;
                 intersection = cairo_region_intersect_rectangle intersection (gint_edges clip)
             in if \<not> cairo_region_is_empty intersection then
                  (let damage_rect = cairo_region_get_extents intersection
                   in (True, [clutter_actor_queue_redraw_with_clip damage_rect]))
                else (False, []))
      | None \<Rightarrow> (True, [clutter_actor_queue_redraw_with_clip clip]))"

definition meta_shaped_texture_update_area ::
    "MetaShapedTexturePrivate \<Rightarrow> int \<Rightarrow> int \<Rightarrow> int \<Rightarrow> int \<Rightarrow> cairo_region option \<Rightarrow> int \<Rightarrow>
     bool \<times> MetaShapedTexturePrivate \<times> update_call list" where
  "meta_shaped_texture_update_area priv x y width height unobscured now =
     (let clip = \<lparr> rect_x = x, rect_y = y, rect_width = width, rect_height = height \<rparr>
      in case texture priv of
           None \<Rightarrow> (False, priv, [])
         | Some t \<Rightarrow>
             (let calls = [cogl_texture_pixmap_x11_update_area x y width height,
                           meta_texture_tower_update_area x y width height];
                  priv = record_update now priv;
                  (queued, redraws) = damage_redraw clip unobscured
              in (queued, priv, calls @ redraws)))"

subsection \<open>The obscured query\<close>



subsection \<open>The mask\<close>

text \<open>
  The calls that give up or take a reference.  \<open>cairo_region_reference\<close> of cairo returns
  \<open>NULL\<close> for a \<open>NULL\<close> region and touches nothing; for a region it counts one more
  reference.
\<close>

datatype release_call =
    cairo_region_destroy cairo_region
  | cairo_path_destroy cairo_path
  | cairo_region_referenced cairo_region
  | cogl_object_unref MaskTexture

definition cairo_region_reference :: "cairo_region option \<Rightarrow> release_call list" where
  "cairo_region_reference region =
     (case region of None \<Rightarrow> [] | Some r \<Rightarrow> [cairo_region_referenced r])"

definition meta_shaped_texture_dirty_mask ::
    "MetaShapedTexturePrivate \<Rightarrow> MetaShapedTexturePrivate \<times> release_call list" where
  "meta_shaped_texture_dirty_mask priv =
     (let (priv, calls) =
            (case mask_texture priv of
               Some m \<Rightarrow> (priv\<lparr>mask_texture := None\<rparr>, [cogl_object_unref m])
             | None \<Rightarrow> (priv, []))
      in (case pipeline priv of
            Some p \<Rightarrow> priv\<lparr>pipeline := Some (p\<lparr>layer1 := None\<rparr>)\<rparr>
          | None \<Rightarrow> priv,
          calls))"

definition meta_shaped_texture_set_overlay_path ::
    "MetaShapedTexturePrivate \<Rightarrow> cairo_region option \<Rightarrow> cairo_path option \<Rightarrow>
     MetaShapedTexturePrivate \<times> release_call list" where
  "meta_shaped_texture_set_overlay_path priv region path =
     (let (priv, calls1) =
            (case overlay_region priv of
               Some r \<Rightarrow> (priv\<lparr>overlay_region := None\<rparr>, [cairo_region_destroy r])
             | None \<Rightarrow> (priv, []));
          (priv, calls2) =
            (case overlay_path priv of
               Some p \<Rightarrow> (priv\<lparr>overlay_path := None\<rparr>, [cairo_path_destroy p])
             | None \<Rightarrow> (priv, []));
          calls3 = cairo_region_reference region;
          priv = priv\<lparr>overlay_region := region\<rparr>;
          priv = priv\<lparr>overlay_path := path\<rparr>;
          (priv, calls4) = meta_shaped_texture_dirty_mask priv
      in (priv, calls1 @ calls2 @ calls3 @ calls4))"

datatype error = NullDereference | BufferOverrun

text \<open>The \<open>CLAMP\<close> macro of GLib.\<close>

definition CLAMP :: "int \<Rightarrow> int \<Rightarrow> int \<Rightarrow> int" where
  "CLAMP v low high = (if v > high then high else if v < low then low else v)"

text \<open>
  \<open>cairo_format_stride_for_width (CAIRO_FORMAT_A8, width)\<close>: one byte a pixel, rows
  aligned to four bytes.
\<close>

definition cairo_format_stride_for_width_A8 :: "nat \<Rightarrow> int" where
  "cairo_format_stride_for_width_A8 w = ((int w + 3) div 4) * 4"

text \<open>
  \<open>memset (mask_data + p, c, n)\<close>.  A write that leaves the buffer is undefined in C; the
  model makes it an error.
\<close>

definition memset :: "8 word list \<Rightarrow> int \<Rightarrow> 8 word \<Rightarrow> int \<Rightarrow> error + 8 word list" where
  "memset mask_data p c n =
     (if 0 \<le> p \<and> 0 \<le> n \<and> p + n \<le> int (length mask_data)
      then Inr (take (nat p) mask_data @ replicate (nat n) c @ drop (nat (p + n)) mask_data)
      else Inl BufferOverrun)"

text \<open>The inner loop of the fill: one \<open>memset\<close> a row, \<open>p\<close> advancing by the stride.\<close>

function fill_rows ::
    "8 word list \<Rightarrow> int \<Rightarrow> int \<Rightarrow> int \<Rightarrow> int \<Rightarrow> int \<Rightarrow> error + 8 word list" where
  "fill_rows mask_data p y1 y2 stride n =
     (if y1 < y2 then
        (case memset mask_data p 255 n of
           Inl e \<Rightarrow> Inl e
         | Inr mask_data \<Rightarrow> fill_rows mask_data (p + stride) (y1 + 1) y2 stride n)
      else Inr mask_data)"
  by pat_completeness auto
termination
  by (relation "measure (\<lambda>(mask_data, p, y1, y2, stride, n). nat (y2 - y1))") auto

declare fill_rows.simps [simp del]

text \<open>The outer loop: the rectangles of the shape region, in order.\<close>

fun fill_rectangles ::
    "8 word list \<Rightarrow> cairo_region \<Rightarrow> nat \<Rightarrow> nat \<Rightarrow> int \<Rightarrow> error + 8 word list" where
  "fill_rectangles mask_data [] tw th stride = Inr mask_data"
| "fill_rectangles mask_data (rect # rest) tw th stride =
     (let x1 = rect_x rect; x2 = x1 + rect_width rect;
          y1 = rect_y rect; y2 = y1 + rect_height rect;
          x1 = CLAMP x1 0 (int tw - 1);
          x2 = CLAMP x2 x1 (int tw);
          y1 = CLAMP y1 0 (int th - 1);
          y2 = CLAMP y2 y1 (int th)
      in case fill_rows mask_data (y1 * stride + x1) y1 y2 stride (x2 - x1) of
           Inl e \<Rightarrow> Inl e
         | Inr mask_data \<Rightarrow> fill_rectangles mask_data rest tw th stride)"

definition rect_contains :: "cairo_rectangle_int \<Rightarrow> int \<Rightarrow> int \<Rightarrow> bool" where
  "rect_contains r px py = ((px, py) \<in> rect_points r)"

text \<open>
  \<open>install_overlay_path\<close> draws with cairo on the mask data: the rectangles of the
  overlay region are cleared, then the path is filled, opaque, clipped to them.  On the
  cleared pixels the mask becomes the coverage of the path.
\<close>

definition install_overlay_path ::
    "MetaShapedTexturePrivate \<Rightarrow> 8 word list \<Rightarrow> nat \<Rightarrow> nat \<Rightarrow> int \<Rightarrow> 8 word list" where
  "install_overlay_path priv mask_data tw th stride =
     (case overlay_region priv of
        None \<Rightarrow> mask_data
      | Some region \<Rightarrow>
          map (\<lambda>i. let px = int i mod stride; py = int i div stride
                   in if px < int tw \<and> py < int th \<and> list_ex (\<lambda>r. rect_contains r px py) region
                      then (case overlay_path priv of None \<Rightarrow> 0 | Some path \<Rightarrow> path px py)
                      else mask_data ! i)
              [0..<length mask_data])"

text \<open>
  \<open>meta_shaped_texture_ensure_mask\<close>.  Both texture constructors
  (\<open>meta_texture_rectangle_new\<close>, \<open>meta_cogl_texture_new_from_data_wrapper\<close>) get the same
  size, stride and data; the mask texture records them and which one made it.
  \<open>cairo_region_num_rectangles\<close> reads through its argument, so a \<open>NULL\<close> shape region at
  that call is an error.
\<close>

definition meta_shaped_texture_ensure_mask ::
    "MetaShapedTexturePrivate \<Rightarrow> error + MetaShapedTexturePrivate \<times> release_call list" where
  "meta_shaped_texture_ensure_mask priv =
     (case texture priv of
        None \<Rightarrow> Inr (priv, [])
      | Some paint_tex \<Rightarrow>
          (let tw = cogl_texture_get_width paint_tex;
               th = cogl_texture_get_height paint_tex;
               (priv, calls) =
                 (if mask_texture priv \<noteq> None \<and> (mask_width priv \<noteq> tw \<or> mask_height priv \<noteq> th)
                  then meta_shaped_texture_dirty_mask priv else (priv, []))
           in if mask_texture priv = None then
                (if shape_region priv = None \<and>
                    (case overlay_region priv of
                       None \<Rightarrow> True
                     | Some region \<Rightarrow> cairo_region_num_rectangles region = 0)
                 then Inr (priv, calls)
                 else
                   (let stride = cairo_format_stride_for_width_A8 tw;
                        mask_data = replicate (nat (stride * int th)) (0 :: 8 word)
                    in case shape_region priv of
                         None \<Rightarrow> Inl NullDereference
                       | Some region \<Rightarrow>
                           (case fill_rectangles mask_data region tw th stride of
                              Inl e \<Rightarrow> Inl e
                            | Inr mask_data \<Rightarrow>
                                (let mask_data = install_overlay_path priv mask_data tw th stride;
                                     m = \<lparr> mask_tex_width = tw, mask_tex_height = th,
                                           mask_tex_stride = nat stride, mask_tex_data = mask_data,
                                           mask_tex_rectangle = meta_texture_rectangle_check paint_tex \<rparr>
                                 in Inr (priv\<lparr>mask_texture := Some m,
                                               mask_width := tw, mask_height := th\<rparr>, calls)))))
              else Inr (priv, calls)))"

text \<open>The byte of the mask at column \<open>px\<close> of row \<open>py\<close>.\<close>

definition mask_pixel :: "MaskTexture \<Rightarrow> nat \<Rightarrow> nat \<Rightarrow> 8 word" where
  "mask_pixel m px py = mask_tex_data m ! (py * mask_tex_stride m + px)"

subsection \<open>The flattened image\<close>

datatype cairo_format = CAIRO_FORMAT_ARGB32 | CAIRO_FORMAT_A8

text \<open>
  An image surface: its format and size as \<open>cairo_image_surface_create\<close> got them, the
  part of the texture whose pixels \<open>cogl_texture_get_data\<close> copied into it (\<open>None\<close>: the
  whole texture), and the mask painted into it with \<open>CAIRO_OPERATOR_DEST_IN\<close>.
\<close>

record cairo_surface =
  surface_format :: cairo_format
  surface_width :: int
  surface_height :: int
  surface_texture_part :: "cairo_rectangle_int option"
  surface_mask :: "MaskTexture option"

definition cairo_image_surface_create :: "cairo_format \<Rightarrow> int \<Rightarrow> int \<Rightarrow> cairo_surface" where
  "cairo_image_surface_create format w h =
     \<lparr> surface_format = format, surface_width = w, surface_height = h,
       surface_texture_part = None, surface_mask = None \<rparr>"

text \<open>
  \<open>cogl_texture_new_from_sub_texture\<close>: a texture of the given size, showing that part
  of its parent.
\<close>

definition cogl_texture_new_from_sub_texture ::
    "CoglTexture \<Rightarrow> int \<Rightarrow> int \<Rightarrow> int \<Rightarrow> int \<Rightarrow> CoglTexture" where
  "cogl_texture_new_from_sub_texture t sub_x sub_y sub_width sub_height =
     t\<lparr>cogl_texture_get_width := nat sub_width, cogl_texture_get_height := nat sub_height\<rparr>"

text \<open>
  \<open>meta_shaped_texture_get_image\<close>: the returned surface (\<open>None\<close> is \<open>NULL\<close>) and the
  rectangle \<open>clip\<close> points to when the function returns.  The clip is the caller's:
  GDK adds its fields in 32 bits, so the rectangle it intersects is \<open>gint_edges\<close> of it.
  When the intersection fails, GDK zeroes the width and height of the clip itself.
\<close>

definition meta_shaped_texture_get_image ::
    "MetaShapedTexturePrivate \<Rightarrow> cairo_rectangle_int option \<Rightarrow>
     cairo_surface option \<times> cairo_rectangle_int option" where
  "meta_shaped_texture_get_image priv clip =
     (case texture priv of
        None \<Rightarrow> (None, clip)
      | Some tex \<Rightarrow>
          (let texture_rect = \<lparr> rect_x = 0, rect_y = 0,
                                 rect_width = int (cogl_texture_get_width tex),
                                 rect_height = int (cogl_texture_get_height tex) \<rparr>;
               (ok, clip) =
                 (case clip of
                    Some c \<Rightarrow>
                      (let (ok, c) = gdk_rectangle_intersect texture_rect (gint_edges c) c
                       in (ok, Some c))
                  | None \<Rightarrow> (True, None))
           in if \<not> ok then (None, clip)
              else
                (let tex = (case clip of
                              Some c \<Rightarrow> cogl_texture_new_from_sub_texture tex
                                          (rect_x c) (rect_y c) (rect_width c) (rect_height c)
                            | None \<Rightarrow> tex);
                     surface = cairo_image_surface_create CAIRO_FORMAT_ARGB32
                                 (int (cogl_texture_get_width tex))
                                 (int (cogl_texture_get_height tex));
                     surface = surface\<lparr>surface_texture_part := clip\<rparr>;
                     surface = (case mask_texture priv of
                                  Some m \<Rightarrow> surface\<lparr>surface_mask := Some m\<rparr>
                                | None \<Rightarrow> surface)
                 in (Some surface, clip))))"

subsection \<open>Painting\<close>

text \<open>
  \<open>gfloat\<close> is a type parameter with the three operations the paint uses on it: the
  conversion from \<open>int\<close>, subtraction and division.
\<close>

record 'f gfloat_ops =
  float_of_int :: "int \<Rightarrow> 'f"
  float_sub :: "'f \<Rightarrow> 'f \<Rightarrow> 'f"
  float_div :: "'f \<Rightarrow> 'f \<Rightarrow> 'f"

text \<open>The operations on exact numbers, for running the model on an input.\<close>

definition exact_floats :: "rat gfloat_ops" where
  "exact_floats = \<lparr> float_of_int = of_int, float_sub = (-), float_div = (/) \<rparr>"

record 'f ClutterActorBox =
  box_x1 :: 'f
  box_y1 :: 'f
  box_x2 :: 'f
  box_y2 :: 'f

text \<open>The rectangles a paint draws, in order.\<close>

datatype 'f draw =
    cogl_rectangle 'f 'f 'f 'f
  | cogl_rectangle_with_multitexture_coords 'f 'f 'f 'f "'f list"

text \<open>
  The body of the loop over the clip rectangles, after the intersection: the
  destination corners, the eight texture coordinates, and the call that draws them.
\<close>

definition paint_clipped_rectangle ::
    "'f gfloat_ops \<Rightarrow> 'f ClutterActorBox \<Rightarrow> cairo_rectangle_int \<Rightarrow> 'f draw" where
  "paint_clipped_rectangle F alloc rect =
     (let x1 = float_of_int F (rect_x rect);
          y1 = float_of_int F (rect_y rect);
          x2 = float_of_int F (rect_x rect + rect_width rect);
          y2 = float_of_int F (rect_y rect + rect_height rect);
          c0 = float_div F (float_of_int F (rect_x rect))
                 (float_sub F (box_x2 alloc) (box_x1 alloc));
          c1 = float_div F (float_of_int F (rect_y rect))
                 (float_sub F (box_y2 alloc) (box_y1 alloc));
          c2 = float_div F (float_of_int F (rect_x rect + rect_width rect))
                 (float_sub F (box_x2 alloc) (box_x1 alloc));
          c3 = float_div F (float_of_int F (rect_y rect + rect_height rect))
                 (float_sub F (box_y2 alloc) (box_y1 alloc));
          c4 = c0; c5 = c1; c6 = c2; c7 = c3
      in cogl_rectangle_with_multitexture_coords x1 y1 x2 y2
           [c0, c1, c2, c3, c4, c5, c6, c7])"

text \<open>
  The loop over the rectangles of the clip region; the list recursion visits them in
  the order of \<open>cairo_region_get_rectangle\<close>.
\<close>

fun paint_clip_rectangles ::
    "'f gfloat_ops \<Rightarrow> cairo_rectangle_int \<Rightarrow> 'f ClutterActorBox \<Rightarrow> cairo_region \<Rightarrow>
     'f draw list" where
  "paint_clip_rectangles F tex_rect alloc [] = []"
| "paint_clip_rectangles F tex_rect alloc (rect # rest) =
     (let (ok, rect) = gdk_rectangle_intersect tex_rect rect rect
      in if \<not> ok then paint_clip_rectangles F tex_rect alloc rest
         else paint_clipped_rectangle F alloc rect
              # paint_clip_rectangles F tex_rect alloc rest)"

text \<open>The single rectangle of an unclipped paint.\<close>

definition full_repaint :: "'f gfloat_ops \<Rightarrow> 'f ClutterActorBox \<Rightarrow> 'f draw list" where
  "full_repaint F alloc =
     [cogl_rectangle (float_of_int F 0) (float_of_int F 0)
        (float_sub F (box_x2 alloc) (box_x1 alloc))
        (float_sub F (box_y2 alloc) (box_y1 alloc))]"

text \<open>
  The last block of \<open>meta_shaped_texture_paint\<close>, from the test of \<open>clip_region\<close> on.
\<close>

definition paint_rectangles ::
    "'f gfloat_ops \<Rightarrow> MetaShapedTexturePrivate \<Rightarrow> 'f ClutterActorBox \<Rightarrow> 'f draw list" where
  "paint_rectangles F priv alloc =
     (case clip_region priv of
        Some region \<Rightarrow>
          (let tex_rect = \<lparr> rect_x = 0, rect_y = 0,
                             rect_width = int (tex_width priv),
                             rect_height = int (tex_height priv) \<rparr>;
               n_rects = cairo_region_num_rectangles region
           in if n_rects \<le> MAX_RECTS
              then paint_clip_rectangles F tex_rect alloc region
              else full_repaint F alloc)
      | None \<Rightarrow> full_repaint F alloc)"

text \<open>
  The pipeline a paint draws with: \<open>cogl_pipeline_copy\<close> of a fresh template has no layer
  texture yet.  The unshaped pipeline has one layer, the shaped one the mask as second.
  The colour that the paint sets from the actor's opacity is left out.
\<close>

definition cogl_pipeline_new :: CoglPipeline where
  "cogl_pipeline_new = \<lparr> layer0 = None, layer1 = None \<rparr>"

definition paint_pipeline ::
    "MetaShapedTexturePrivate \<Rightarrow> CoglTexture \<Rightarrow> error + MetaShapedTexturePrivate" where
  "paint_pipeline priv paint_tex =
     (if shape_region priv = None then
        (let p = (case pipeline_unshaped priv of None \<Rightarrow> cogl_pipeline_new | Some p \<Rightarrow> p)
         in Inr (priv\<lparr>pipeline_unshaped := Some (p\<lparr>layer0 := Some paint_tex\<rparr>)\<rparr>))
      else
        (case meta_shaped_texture_ensure_mask priv of
           Inl e \<Rightarrow> Inl e
         | Inr (priv, calls) \<Rightarrow>
             (let p = (case pipeline priv of None \<Rightarrow> cogl_pipeline_new | Some p \<Rightarrow> p);
                  p = p\<lparr>layer1 := mask_texture priv\<rparr>
              in Inr (priv\<lparr>pipeline := Some (p\<lparr>layer0 := Some paint_tex\<rparr>)\<rparr>))))"

text \<open>
  \<open>meta_shaped_texture_paint\<close>: the state after the paint and the rectangles drawn.
  \<open>now\<close> is the monotonic time, \<open>alloc\<close> the allocation box of the actor.
\<close>

definition meta_shaped_texture_paint ::
    "'f gfloat_ops \<Rightarrow> MetaShapedTexturePrivate \<Rightarrow> int \<Rightarrow> CoglTexture option \<Rightarrow> nat \<Rightarrow>
     'f ClutterActorBox \<Rightarrow> error + MetaShapedTexturePrivate \<times> 'f draw list" where
  "meta_shaped_texture_paint F priv now tower_tex new_id alloc =
     (if (case clip_region priv of Some region \<Rightarrow> cairo_region_is_empty region | None \<Rightarrow> False)
      then Inr (priv, [])
      else
        (case select_paint_texture priv now tower_tex new_id of
           (None, priv) \<Rightarrow> Inr (priv, [])
         | (Some paint_tex, priv) \<Rightarrow>
             if tex_width priv = 0 \<or> tex_height priv = 0 then Inr (priv, [])
             else
               (case paint_pipeline priv paint_tex of
                  Inl e \<Rightarrow> Inl e
                | Inr priv \<Rightarrow> Inr (priv, paint_rectangles F priv alloc))))"

subsection \<open>The other entry points, and the states an actor can reach\<close>










subsection \<open>Reading a drawn rectangle\<close>

text \<open>The destination corners and the texture coordinates of a drawn rectangle.\<close>

fun draw_destination :: "'f draw \<Rightarrow> 'f \<times> 'f \<times> 'f \<times> 'f" where
  "draw_destination (cogl_rectangle x1 y1 x2 y2) = (x1, y1, x2, y2)"
| "draw_destination (cogl_rectangle_with_multitexture_coords x1 y1 x2 y2 coords) = (x1, y1, x2, y2)"

fun draw_coords :: "'f draw \<Rightarrow> 'f list" where
  "draw_coords (cogl_rectangle x1 y1 x2 y2) = []"
| "draw_coords (cogl_rectangle_with_multitexture_coords x1 y1 x2 y2 coords) = coords"

text \<open>The corners of an integer rectangle, converted as the paint converts them.\<close>

definition float_corners :: "'f gfloat_ops \<Rightarrow> cairo_rectangle_int \<Rightarrow> 'f \<times> 'f \<times> 'f \<times> 'f" where
  "float_corners F r =
     (float_of_int F (rect_x r), float_of_int F (rect_y r),
      float_of_int F (rect_x r + rect_width r), float_of_int F (rect_y r + rect_height r))"

text \<open>
  The corners of an integer rectangle, each divided by the extent \<open>w\<close> or \<open>h\<close> of its
  axis: the texture coordinates of one layer.
\<close>

definition normalized_coords :: "'f gfloat_ops \<Rightarrow> 'f \<Rightarrow> 'f \<Rightarrow> cairo_rectangle_int \<Rightarrow> 'f list" where
  "normalized_coords F w h r =
     [float_div F (float_of_int F (rect_x r)) w,
      float_div F (float_of_int F (rect_y r)) h,
      float_div F (float_of_int F (rect_x r + rect_width r)) w,
      float_div F (float_of_int F (rect_y r + rect_height r)) h]"

text \<open>
  The pixels the fill writes for one rectangle of the shape region: those between the
  clamped edges.
\<close>

definition fill_covers :: "nat \<Rightarrow> nat \<Rightarrow> cairo_rectangle_int \<Rightarrow> int \<Rightarrow> int \<Rightarrow> bool" where
  "fill_covers tw th rect px py =
     (let x1 = CLAMP (rect_x rect) 0 (int tw - 1);
          x2 = CLAMP (rect_x rect + rect_width rect) x1 (int tw);
          y1 = CLAMP (rect_y rect) 0 (int th - 1);
          y2 = CLAMP (rect_y rect + rect_height rect) y1 (int th)
      in x1 \<le> px \<and> px < x2 \<and> y1 \<le> py \<and> py < y2)"

text \<open>
  A rectangle is the bounding box of a set of pixels when it holds them all and lies
  inside every rectangle that does.
\<close>

definition bounding_extents :: "cairo_rectangle_int \<Rightarrow> (int \<times> int) set \<Rightarrow> bool" where
  "bounding_extents d S =
     (S \<subseteq> rect_points d \<and> (\<forall>b. S \<subseteq> rect_points b \<longrightarrow> rect_points d \<subseteq> rect_points b))"

section \<open>Properties\<close>

lemma MIN_MIPMAP_AGE_USEC_value: "MIN_MIPMAP_AGE_USEC = 200000"
  by (simp add: MIN_MIPMAP_AGE_USEC_def G_USEC_PER_SEC_def MAX_MIPMAPPING_FPS_def)

subsection \<open>The invalidation timeline\<close>

lemma record_update_fields:
  "prev_invalidation (record_update now priv) = last_invalidation priv"
  "last_invalidation (record_update now priv) = now"
  "fast_updates (record_update now priv) =
     (if last_invalidation priv = 0 then fast_updates priv
      else if now - last_invalidation priv \<ge> MIN_MIPMAP_AGE_USEC then 0
      else if fast_updates priv < MIN_FAST_UPDATES_BEFORE_UNMIPMAP then fast_updates priv + 1
      else fast_updates priv)"
  by (simp_all add: record_update_def Let_def)

lemma record_update_bounded:
  "fast_updates priv \<le> MIN_FAST_UPDATES_BEFORE_UNMIPMAP \<Longrightarrow>
   fast_updates (record_update now priv) \<le> MIN_FAST_UPDATES_BEFORE_UNMIPMAP"
  by (simp add: record_update_fields)

lemma record_updates_bounded:
  "fast_updates priv \<le> MIN_FAST_UPDATES_BEFORE_UNMIPMAP \<Longrightarrow>
   fast_updates (foldl (\<lambda>p t. record_update t p) priv nows) \<le> MIN_FAST_UPDATES_BEFORE_UNMIPMAP"
  by (induction nows arbitrary: priv) (simp_all add: record_update_bounded)

text \<open>
  Claim C3.  In every state and at every time \<open>now\<close>, the timing block moves
  \<open>last_invalidation\<close> into \<open>prev_invalidation\<close> and sets \<open>last_invalidation\<close> to \<open>now\<close>.
  When there was an update before (the old \<open>last_invalidation\<close> is not 0) and the interval
  to it is at least \<open>MIN_MIPMAP_AGE_USEC\<close>, \<open>fast_updates\<close> becomes 0; when the interval is
  shorter, \<open>fast_updates\<close> grows by one unless it has reached
  \<open>MIN_FAST_UPDATES_BEFORE_UNMIPMAP\<close>, where it stays.  So the bound
  \<open>fast_updates \<le> MIN_FAST_UPDATES_BEFORE_UNMIPMAP\<close> is kept by every update, and holds
  after any sequence of updates of a new actor.
\<close>

theorem record_update_timeline:
  "(let priv' = record_update now priv in
      prev_invalidation priv' = last_invalidation priv \<and>
      last_invalidation priv' = now \<and>
      fast_updates priv' =
        (if last_invalidation priv = 0 then fast_updates priv
         else if now - last_invalidation priv \<ge> MIN_MIPMAP_AGE_USEC then 0
         else if fast_updates priv < MIN_FAST_UPDATES_BEFORE_UNMIPMAP then fast_updates priv + 1
         else fast_updates priv) \<and>
      (fast_updates priv \<le> MIN_FAST_UPDATES_BEFORE_UNMIPMAP \<longrightarrow>
       fast_updates priv' \<le> MIN_FAST_UPDATES_BEFORE_UNMIPMAP)) \<and>
   fast_updates (foldl (\<lambda>p t. record_update t p) meta_shaped_texture_init nows)
     \<le> MIN_FAST_UPDATES_BEFORE_UNMIPMAP"
proof -
  have "fast_updates meta_shaped_texture_init \<le> MIN_FAST_UPDATES_BEFORE_UNMIPMAP"
    by (simp add: meta_shaped_texture_init_def)
  then have "fast_updates (foldl (\<lambda>p t. record_update t p) meta_shaped_texture_init nows)
     \<le> MIN_FAST_UPDATES_BEFORE_UNMIPMAP"
    by (rule record_updates_bounded)
  then show ?thesis
    unfolding Let_def using record_update_bounded [of priv now]
    by (simp only: record_update_fields) simp
qed

theorem record_update_timeline_witness:
  "fast_updates (record_update 2000
      (meta_shaped_texture_init\<lparr>last_invalidation := 1000, fast_updates := 20\<rparr>)) = 20 \<and>
   fast_updates (record_update 2000
      (meta_shaped_texture_init\<lparr>last_invalidation := 1000, fast_updates := 19\<rparr>)) = 20 \<and>
   fast_updates (record_update 300000
      (meta_shaped_texture_init\<lparr>last_invalidation := 1000, fast_updates := 20\<rparr>)) = 0 \<and>
   fast_updates (foldl (\<lambda>p t. record_update t p) meta_shaped_texture_init [1, 2, 3]) = 2"
  using record_update_timeline [of 2000 "meta_shaped_texture_init\<lparr>last_invalidation := 1000, fast_updates := 20\<rparr>" "[1, 2, 3]"]
    record_update_timeline [of 2000 "meta_shaped_texture_init\<lparr>last_invalidation := 1000, fast_updates := 19\<rparr>" "[]"]
    record_update_timeline [of 300000 "meta_shaped_texture_init\<lparr>last_invalidation := 1000, fast_updates := 20\<rparr>" "[]"]
  by (simp add: Let_def record_update_def meta_shaped_texture_init_def MIN_MIPMAP_AGE_USEC_value
      MIN_FAST_UPDATES_BEFORE_UNMIPMAP_def)

subsection \<open>The paint texture\<close>

text \<open>
  Claim C2, amended.  \<open>should_use_mipmap\<close> is false when \<open>create_mipmaps\<close> is off or
  \<open>last_invalidation\<close> is 0 (no update recorded); otherwise it is true exactly when
  \<open>now - last_invalidation \<ge> MIN_MIPMAP_AGE_USEC\<close> or
  \<open>fast_updates < MIN_FAST_UPDATES_BEFORE_UNMIPMAP\<close>.  When it is true the paint asks the
  tower for its paint texture and paints from it if the tower gives one; when it is
  false, or the tower gives none, the paint source is the raw texture.
\<close>

theorem select_paint_texture_source:
  "should_use_mipmap priv now =
     (create_mipmaps priv \<and> last_invalidation priv \<noteq> 0 \<and>
      (now - last_invalidation priv \<ge> MIN_MIPMAP_AGE_USEC \<or>
       fast_updates priv < MIN_FAST_UPDATES_BEFORE_UNMIPMAP)) \<and>
   fst (select_paint_texture priv now tower_tex new_id) =
     (if should_use_mipmap priv now \<and> tower_tex \<noteq> None then tower_tex else texture priv)"
  by (auto simp add: should_use_mipmap_def select_paint_texture_def mipmap_paint_texture_def Let_def
      split: option.splits)

theorem select_paint_texture_source_witness:
  "should_use_mipmap (meta_shaped_texture_init\<lparr>last_invalidation := 1000, fast_updates := 20\<rparr>) 2000 = False \<and>
   should_use_mipmap (meta_shaped_texture_init\<lparr>last_invalidation := 1000, fast_updates := 19\<rparr>) 2000 = True \<and>
   fst (select_paint_texture (meta_shaped_texture_init\<lparr>last_invalidation := 1000, fast_updates := 19\<rparr>) 2000
          (Some \<lparr> cogl_texture_get_width = 50, cogl_texture_get_height = 50, meta_texture_rectangle_check = False \<rparr>) 7)
     = Some \<lparr> cogl_texture_get_width = 50, cogl_texture_get_height = 50, meta_texture_rectangle_check = False \<rparr>"
  using select_paint_texture_source [of "meta_shaped_texture_init\<lparr>last_invalidation := 1000, fast_updates := 20\<rparr>" 2000 None 7]
        select_paint_texture_source [of "meta_shaped_texture_init\<lparr>last_invalidation := 1000, fast_updates := 19\<rparr>" 2000
          "Some \<lparr> cogl_texture_get_width = 50, cogl_texture_get_height = 50, meta_texture_rectangle_check = False \<rparr>" 7]
  by (simp add: meta_shaped_texture_init_def MIN_MIPMAP_AGE_USEC_value MIN_FAST_UPDATES_BEFORE_UNMIPMAP_def)

text \<open>
  The claim as stated fails where the tower has no texture: with mipmaps on, an update
  at 1000 and a paint at 300000 the decision is true, yet the paint source is the raw
  100 by 100 texture.
\<close>

theorem select_paint_texture_counterexample:
  "should_use_mipmap
     (meta_shaped_texture_init\<lparr>texture := Some \<lparr> cogl_texture_get_width = 100, cogl_texture_get_height = 100, meta_texture_rectangle_check = False \<rparr>,
        last_invalidation := 1000\<rparr>) 300000 \<and>
   fst (select_paint_texture
     (meta_shaped_texture_init\<lparr>texture := Some \<lparr> cogl_texture_get_width = 100, cogl_texture_get_height = 100, meta_texture_rectangle_check = False \<rparr>,
        last_invalidation := 1000\<rparr>) 300000 None 7)
     = Some \<lparr> cogl_texture_get_width = 100, cogl_texture_get_height = 100, meta_texture_rectangle_check = False \<rparr>"
  by (simp add: should_use_mipmap_def select_paint_texture_def mipmap_paint_texture_def
      meta_shaped_texture_init_def MIN_MIPMAP_AGE_USEC_value MIN_FAST_UPDATES_BEFORE_UNMIPMAP_def)

subsection \<open>Rectangles, regions and their pixels\<close>

lemma in_rect_points:
  "(px, py) \<in> rect_points r \<longleftrightarrow>
     rect_x r \<le> px \<and> px < rect_x r + rect_width r \<and>
     rect_y r \<le> py \<and> py < rect_y r + rect_height r"
  by (simp add: rect_points_def)

lemma rectangle_intersection_cases:
  "rectangle_intersection a b =
     (if max (rect_x a) (rect_x b) < min (rect_x a + rect_width a) (rect_x b + rect_width b) \<and>
         max (rect_y a) (rect_y b) < min (rect_y a + rect_height a) (rect_y b + rect_height b)
      then Some \<lparr> rect_x = max (rect_x a) (rect_x b), rect_y = max (rect_y a) (rect_y b),
                  rect_width = min (rect_x a + rect_width a) (rect_x b + rect_width b)
                               - max (rect_x a) (rect_x b),
                  rect_height = min (rect_y a + rect_height a) (rect_y b + rect_height b)
                               - max (rect_y a) (rect_y b) \<rparr>
      else None)"
  by (simp add: rectangle_intersection_def Let_def)

lemma rectangle_intersection_Some:
  assumes "rectangle_intersection a b = Some c"
  shows "rect_points c = rect_points a \<inter> rect_points b"
proof -
  from assms have c: "c = \<lparr> rect_x = max (rect_x a) (rect_x b), rect_y = max (rect_y a) (rect_y b),
                  rect_width = min (rect_x a + rect_width a) (rect_x b + rect_width b)
                               - max (rect_x a) (rect_x b),
                  rect_height = min (rect_y a + rect_height a) (rect_y b + rect_height b)
                               - max (rect_y a) (rect_y b) \<rparr>"
    by (simp add: rectangle_intersection_cases split: if_splits)
  show ?thesis
  proof (rule set_eqI)
    fix p :: "int \<times> int"
    obtain px py where p: "p = (px, py)" by (cases p)
    show "p \<in> rect_points c \<longleftrightarrow> p \<in> rect_points a \<inter> rect_points b"
      unfolding p Int_iff in_rect_points c by simp linarith
  qed
qed

lemma rectangle_intersection_None:
  assumes "rectangle_intersection a b = None"
  shows "rect_points a \<inter> rect_points b = {}"
proof -
  from assms have n:
    "\<not> (max (rect_x a) (rect_x b) < min (rect_x a + rect_width a) (rect_x b + rect_width b) \<and>
        max (rect_y a) (rect_y b) < min (rect_y a + rect_height a) (rect_y b + rect_height b))"
    by (simp add: rectangle_intersection_cases split: if_splits)
  have "p \<notin> rect_points a \<inter> rect_points b" for p
  proof -
    obtain px py where p: "p = (px, py)" by (cases p)
    show ?thesis
      unfolding p Int_iff in_rect_points using n by linarith
  qed
  then show ?thesis by blast
qed

lemma rectangle_intersection_ok:
  "rectangle_intersection a b = Some c \<Longrightarrow> 0 < rect_width c \<and> 0 < rect_height c"
  by (auto simp add: rectangle_intersection_cases split: if_splits)

lemma gdk_rectangle_intersect_eq:
  "gdk_rectangle_intersect a b d =
     (case rectangle_intersection b a of
        Some c \<Rightarrow> (True, c)
      | None \<Rightarrow> (False, d\<lparr>rect_width := 0, rect_height := 0\<rparr>))"
proof -
  have m: "max (rect_x b) (rect_x a) = max (rect_x a) (rect_x b)"
    "max (rect_y b) (rect_y a) = max (rect_y a) (rect_y b)"
    "min (rect_x b + rect_width b) (rect_x a + rect_width a)
       = min (rect_x a + rect_width a) (rect_x b + rect_width b)"
    "min (rect_y b + rect_height b) (rect_y a + rect_height a)
       = min (rect_y a + rect_height a) (rect_y b + rect_height b)"
    by (simp_all only: max.commute min.commute)
  show ?thesis
    unfolding gdk_rectangle_intersect_def rectangle_intersection_cases Let_def m
    by simp
qed

lemma region_points_Nil: "region_points [] = {}"
  by (simp add: region_points_def)

lemma region_points_Cons: "region_points (r # rs) = rect_points r \<union> region_points rs"
  by (simp add: region_points_def)

lemma intersect_rectangle_Nil: "cairo_region_intersect_rectangle [] c = []"
  by (simp add: cairo_region_intersect_rectangle_def)

lemma intersect_rectangle_Cons:
  "cairo_region_intersect_rectangle (r # rs) c =
     (case rectangle_intersection r c of
        None \<Rightarrow> cairo_region_intersect_rectangle rs c
      | Some q \<Rightarrow> q # cairo_region_intersect_rectangle rs c)"
  by (simp add: cairo_region_intersect_rectangle_def split: option.splits)

lemma intersect_rectangle_points:
  "region_points (cairo_region_intersect_rectangle region c) = region_points region \<inter> rect_points c"
proof (induction region)
  case Nil
  show ?case by (simp add: intersect_rectangle_Nil region_points_Nil)
next
  case (Cons r rs)
  show ?case
  proof (cases "rectangle_intersection r c")
    case None
    then show ?thesis
      using Cons rectangle_intersection_None [OF None]
      by (auto simp add: intersect_rectangle_Cons region_points_Cons)
  next
    case (Some q)
    then show ?thesis
      using Cons rectangle_intersection_Some [OF Some]
      by (auto simp add: intersect_rectangle_Cons region_points_Cons)
  qed
qed

lemma intersect_rectangle_ok: "region_ok (cairo_region_intersect_rectangle region c)"
proof (induction region)
  case Nil
  show ?case by (simp add: intersect_rectangle_Nil region_ok_def)
next
  case (Cons r rs)
  then show ?case
    using rectangle_intersection_ok [of r c]
    by (auto simp add: intersect_rectangle_Cons region_ok_def split: option.splits)
qed

lemma paint_clip_rectangles_map:
  "paint_clip_rectangles F tex_rect alloc region =
     map (paint_clipped_rectangle F alloc) (cairo_region_intersect_rectangle region tex_rect)"
  by (induction region)
    (simp_all add: intersect_rectangle_Nil intersect_rectangle_Cons gdk_rectangle_intersect_eq
      split: option.splits)

lemma draw_destination_clipped:
  "draw_destination (paint_clipped_rectangle F alloc r) = float_corners F r"
  by (simp add: paint_clipped_rectangle_def float_corners_def Let_def)

lemma draw_coords_clipped:
  "draw_coords (paint_clipped_rectangle F alloc r) =
     normalized_coords F (float_sub F (box_x2 alloc) (box_x1 alloc))
       (float_sub F (box_y2 alloc) (box_y1 alloc)) r @
     normalized_coords F (float_sub F (box_x2 alloc) (box_x1 alloc))
       (float_sub F (box_y2 alloc) (box_y1 alloc)) r"
  by (simp add: paint_clipped_rectangle_def normalized_coords_def Let_def)

lemma rect_points_corner:
  "0 < rect_width r \<Longrightarrow> 0 < rect_height r \<Longrightarrow> (rect_x r, rect_y r) \<in> rect_points r"
  by (simp add: in_rect_points)

lemma rect_points_last:
  "0 < rect_width r \<Longrightarrow> 0 < rect_height r \<Longrightarrow>
   (rect_x r + rect_width r - 1, rect_y r + rect_height r - 1) \<in> rect_points r"
  by (simp add: in_rect_points)

lemma rect_points_subset_iff:
  assumes "0 < rect_width a" and "0 < rect_height a"
  shows "rect_points a \<subseteq> rect_points b \<longleftrightarrow>
           rect_x b \<le> rect_x a \<and> rect_x a + rect_width a \<le> rect_x b + rect_width b \<and>
           rect_y b \<le> rect_y a \<and> rect_y a + rect_height a \<le> rect_y b + rect_height b"
proof
  assume sub: "rect_points a \<subseteq> rect_points b"
  have "(rect_x a, rect_y a) \<in> rect_points b"
    using sub rect_points_corner [OF assms] by blast
  moreover have "(rect_x a + rect_width a - 1, rect_y a + rect_height a - 1) \<in> rect_points b"
    using sub rect_points_last [OF assms] by blast
  ultimately show "rect_x b \<le> rect_x a \<and> rect_x a + rect_width a \<le> rect_x b + rect_width b \<and>
           rect_y b \<le> rect_y a \<and> rect_y a + rect_height a \<le> rect_y b + rect_height b"
    unfolding in_rect_points by linarith
next
  assume le: "rect_x b \<le> rect_x a \<and> rect_x a + rect_width a \<le> rect_x b + rect_width b \<and>
           rect_y b \<le> rect_y a \<and> rect_y a + rect_height a \<le> rect_y b + rect_height b"
  show "rect_points a \<subseteq> rect_points b"
  proof
    fix p assume pa: "p \<in> rect_points a"
    obtain px py where p: "p = (px, py)" by (cases p)
    show "p \<in> rect_points b"
      using pa le unfolding p in_rect_points by linarith
  qed
qed

lemma bounding_box_fields:
  "rect_x (bounding_box a b) = min (rect_x a) (rect_x b)"
  "rect_y (bounding_box a b) = min (rect_y a) (rect_y b)"
  "rect_x (bounding_box a b) + rect_width (bounding_box a b)
     = max (rect_x a + rect_width a) (rect_x b + rect_width b)"
  "rect_y (bounding_box a b) + rect_height (bounding_box a b)
     = max (rect_y a + rect_height a) (rect_y b + rect_height b)"
  by (simp_all add: bounding_box_def Let_def)

lemma bounding_box_ok:
  assumes "0 < rect_width a" and "0 < rect_height a"
  shows "0 < rect_width (bounding_box a b) \<and> 0 < rect_height (bounding_box a b)"
  using assms by (simp add: bounding_box_def Let_def) linarith

lemma bounding_box_least:
  assumes a: "0 < rect_width a" "0 < rect_height a"
    and b: "0 < rect_width b" "0 < rect_height b"
  shows "rect_points (bounding_box a b) \<subseteq> rect_points c \<longleftrightarrow>
           rect_points a \<subseteq> rect_points c \<and> rect_points b \<subseteq> rect_points c"
proof -
  have bb: "0 < rect_width (bounding_box a b)" "0 < rect_height (bounding_box a b)"
    using bounding_box_ok [OF a] by simp_all
  show ?thesis
    unfolding rect_points_subset_iff [OF bb] rect_points_subset_iff [OF a]
      rect_points_subset_iff [OF b] bounding_box_fields(3,4)
    unfolding bounding_box_fields(1,2)
    by auto
qed

lemma foldl_bounding_box:
  assumes "0 < rect_width r" and "0 < rect_height r" and "region_ok rs"
  shows "0 < rect_width (foldl bounding_box r rs) \<and> 0 < rect_height (foldl bounding_box r rs) \<and>
         (\<forall>c. rect_points (foldl bounding_box r rs) \<subseteq> rect_points c \<longleftrightarrow>
              rect_points r \<subseteq> rect_points c \<and> (\<forall>q \<in> set rs. rect_points q \<subseteq> rect_points c))"
  using assms
proof (induction rs arbitrary: r)
  case Nil
  then show ?case by simp
next
  case (Cons q rs)
  have q: "0 < rect_width q" "0 < rect_height q" and rs: "region_ok rs"
    using Cons.prems(3) by (simp_all add: region_ok_def)
  have bb: "0 < rect_width (bounding_box r q)" "0 < rect_height (bounding_box r q)"
    using bounding_box_ok [OF Cons.prems(1,2)] by simp_all
  show ?case
    using Cons.IH [OF bb rs] bounding_box_least [OF Cons.prems(1,2) q]
    by simp
qed

lemma region_extents_bounding:
  assumes "region_ok region" and "region \<noteq> []"
  shows "bounding_extents (cairo_region_get_extents region) (region_points region)"
proof -
  obtain r rs where reg: "region = r # rs"
    using assms(2) by (cases region) simp_all
  have r: "0 < rect_width r" "0 < rect_height r" and rs: "region_ok rs"
    using assms(1) by (simp_all add: reg region_ok_def)
  have ext: "cairo_region_get_extents region = foldl bounding_box r rs"
    by (simp add: cairo_region_get_extents_def reg)
  have sub: "region_points region \<subseteq> rect_points c \<longleftrightarrow>
        rect_points r \<subseteq> rect_points c \<and> (\<forall>q \<in> set rs. rect_points q \<subseteq> rect_points c)" for c
    by (auto simp add: reg region_points_def)
  have iff: "rect_points (foldl bounding_box r rs) \<subseteq> rect_points c \<longleftrightarrow>
        region_points region \<subseteq> rect_points c" for c
    using foldl_bounding_box [OF r rs] sub by blast
  show ?thesis
    unfolding bounding_extents_def ext using iff by blast
qed

lemma region_ok_points_empty:
  assumes "region_ok region"
  shows "region_points region = {} \<longleftrightarrow> region = []"
proof (cases region)
  case Nil
  then show ?thesis by (simp add: region_points_Nil)
next
  case (Cons r rs)
  have "0 < rect_width r" "0 < rect_height r"
    using assms by (simp_all add: Cons region_ok_def)
  then have "(rect_x r, rect_y r) \<in> region_points region"
    using rect_points_corner [of r] by (simp add: Cons region_points_Cons)
  then show ?thesis using Cons by auto
qed

lemma intersect_rectangle_empty_iff:
  "cairo_region_is_empty (cairo_region_intersect_rectangle region c) \<longleftrightarrow>
     region_points region \<inter> rect_points c = {}"
  using region_ok_points_empty [OF intersect_rectangle_ok, of region c]
  by (simp add: cairo_region_is_empty_def cairo_region_num_rectangles_def
      intersect_rectangle_points)

lemma region_empty_points: "cairo_region_is_empty region \<Longrightarrow> region_points region = {}"
  by (simp add: cairo_region_is_empty_def cairo_region_num_rectangles_def region_points_Nil)

subsection \<open>Damage\<close>

lemma gint_wrap_fits: "fits_gint v \<Longrightarrow> gint_wrap v = v"
  by (simp add: gint_wrap_def fits_gint_def)

lemma gint_edges_fits: "rectangle_fits_gint r \<Longrightarrow> gint_edges r = r"
  by (simp add: rectangle_fits_gint_def gint_edges_def gint_wrap_fits)

lemma damage_redraw_decision:
  "damage_redraw rect None = (True, [clutter_actor_queue_redraw_with_clip rect]) \<and>
   (cairo_region_is_empty region \<longrightarrow> damage_redraw rect (Some region) = (False, [])) \<and>
   (region_points region \<inter> rect_points (gint_edges rect) = {} \<longrightarrow>
      damage_redraw rect (Some region) = (False, [])) \<and>
   (\<not> cairo_region_is_empty region \<and>
    region_points region \<inter> rect_points (gint_edges rect) \<noteq> {} \<longrightarrow>
      damage_redraw rect (Some region) =
        (True, [clutter_actor_queue_redraw_with_clip
                  (cairo_region_get_extents
                     (cairo_region_intersect_rectangle region (gint_edges rect)))]) \<and>
      bounding_extents
        (cairo_region_get_extents (cairo_region_intersect_rectangle region (gint_edges rect)))
        (region_points region \<inter> rect_points (gint_edges rect)))"
proof -
  let ?g = "gint_edges rect"
  have a: "damage_redraw rect None = (True, [clutter_actor_queue_redraw_with_clip rect])"
    by (simp add: damage_redraw_def)
  have b: "damage_redraw rect (Some region) = (False, [])" if "cairo_region_is_empty region"
    using that by (simp add: damage_redraw_def)
  have c: "damage_redraw rect (Some region) = (False, [])"
    if "region_points region \<inter> rect_points ?g = {}"
    using that
    by (simp add: damage_redraw_def Let_def cairo_region_copy_def intersect_rectangle_empty_iff)
  have d: "damage_redraw rect (Some region) =
        (True, [clutter_actor_queue_redraw_with_clip
                  (cairo_region_get_extents (cairo_region_intersect_rectangle region ?g))])"
    if "\<not> cairo_region_is_empty region" "region_points region \<inter> rect_points ?g \<noteq> {}"
    using that
    by (simp add: damage_redraw_def Let_def cairo_region_copy_def intersect_rectangle_empty_iff)
  have e: "bounding_extents (cairo_region_get_extents (cairo_region_intersect_rectangle region ?g))
        (region_points region \<inter> rect_points ?g)"
    if "region_points region \<inter> rect_points ?g \<noteq> {}"
  proof -
    have "cairo_region_intersect_rectangle region ?g \<noteq> []"
      using that intersect_rectangle_points [of region ?g] region_points_Nil by auto
    then show ?thesis
      using region_extents_bounding [OF intersect_rectangle_ok, of region ?g]
      by (simp add: intersect_rectangle_points)
  qed
  show ?thesis
    using a b c d e by blast
qed

lemma update_area_bound:
  assumes "texture priv \<noteq> None"
  shows "meta_shaped_texture_update_area priv x y w h unobscured now =
           (fst (damage_redraw \<lparr> rect_x = x, rect_y = y, rect_width = w, rect_height = h \<rparr>
                   unobscured),
            record_update now priv,
            [cogl_texture_pixmap_x11_update_area x y w h,
             meta_texture_tower_update_area x y w h] @
            snd (damage_redraw \<lparr> rect_x = x, rect_y = y, rect_width = w, rect_height = h \<rparr>
                   unobscured))"
  using assms
  by (cases "texture priv")
    (simp_all add: meta_shaped_texture_update_area_def Let_def split: prod.splits)

text \<open>
  Claim C4, amended.  With no texture bound, \<open>meta_shaped_texture_update_area\<close> returns
  false and queues nothing.  With a texture bound it repairs the texture and the tower
  and records the update, and then: with no unobscured region it queues one redraw
  clipped to the damage rectangle and returns true; with a region, and a damage
  rectangle whose fields and sums \<open>x + width\<close>, \<open>y + height\<close> fit 32 bits, it queues
  nothing more and returns false when the region is empty or has no pixel in common
  with the rectangle, and otherwise queues one redraw, clipped to the extents of the
  region intersected with the rectangle, which are the bounding box of the common
  pixels, and returns true.
\<close>

theorem update_area_redraw:
  "(texture priv = None \<longrightarrow>
      meta_shaped_texture_update_area priv x y w h unobscured now = (False, priv, [])) \<and>
   (texture priv \<noteq> None \<longrightarrow>
      meta_shaped_texture_update_area priv x y w h None now =
        (True, record_update now priv,
         [cogl_texture_pixmap_x11_update_area x y w h,
          meta_texture_tower_update_area x y w h,
          clutter_actor_queue_redraw_with_clip
            \<lparr> rect_x = x, rect_y = y, rect_width = w, rect_height = h \<rparr>])) \<and>
   (texture priv \<noteq> None \<and>
    rectangle_fits_gint \<lparr> rect_x = x, rect_y = y, rect_width = w, rect_height = h \<rparr> \<longrightarrow>
      (let rect = \<lparr> rect_x = x, rect_y = y, rect_width = w, rect_height = h \<rparr>
       in if cairo_region_is_empty region \<or> region_points region \<inter> rect_points rect = {}
          then meta_shaped_texture_update_area priv x y w h (Some region) now =
                 (False, record_update now priv,
                  [cogl_texture_pixmap_x11_update_area x y w h,
                   meta_texture_tower_update_area x y w h])
          else meta_shaped_texture_update_area priv x y w h (Some region) now =
                 (True, record_update now priv,
                  [cogl_texture_pixmap_x11_update_area x y w h,
                   meta_texture_tower_update_area x y w h,
                   clutter_actor_queue_redraw_with_clip
                     (cairo_region_get_extents (cairo_region_intersect_rectangle region rect))]) \<and>
               bounding_extents
                 (cairo_region_get_extents (cairo_region_intersect_rectangle region rect))
                 (region_points region \<inter> rect_points rect)))"
proof -
  let ?rect = "\<lparr> rect_x = x, rect_y = y, rect_width = w, rect_height = h \<rparr>"
  have a: "meta_shaped_texture_update_area priv x y w h unobscured now = (False, priv, [])"
    if "texture priv = None"
    using that by (simp add: meta_shaped_texture_update_area_def)
  have b: "meta_shaped_texture_update_area priv x y w h None now =
        (True, record_update now priv,
         [cogl_texture_pixmap_x11_update_area x y w h,
          meta_texture_tower_update_area x y w h,
          clutter_actor_queue_redraw_with_clip ?rect])"
    if "texture priv \<noteq> None"
    using update_area_bound [OF that, of x y w h None now] damage_redraw_decision [of ?rect]
    by simp
  have c: "(if cairo_region_is_empty region \<or> region_points region \<inter> rect_points ?rect = {}
          then meta_shaped_texture_update_area priv x y w h (Some region) now =
                 (False, record_update now priv,
                  [cogl_texture_pixmap_x11_update_area x y w h,
                   meta_texture_tower_update_area x y w h])
          else meta_shaped_texture_update_area priv x y w h (Some region) now =
                 (True, record_update now priv,
                  [cogl_texture_pixmap_x11_update_area x y w h,
                   meta_texture_tower_update_area x y w h,
                   clutter_actor_queue_redraw_with_clip
                     (cairo_region_get_extents (cairo_region_intersect_rectangle region ?rect))]) \<and>
               bounding_extents
                 (cairo_region_get_extents (cairo_region_intersect_rectangle region ?rect))
                 (region_points region \<inter> rect_points ?rect))"
    if t: "texture priv \<noteq> None" and f: "rectangle_fits_gint ?rect"
  proof -
    have g: "gint_edges ?rect = ?rect" using gint_edges_fits [OF f] .
    note d = damage_redraw_decision [of ?rect region, unfolded g]
    note u = update_area_bound [OF t, of x y w h "Some region" now]
    show ?thesis
    proof (cases "cairo_region_is_empty region \<or> region_points region \<inter> rect_points ?rect = {}")
      case True
      then have "damage_redraw ?rect (Some region) = (False, [])" using d by blast
      then show ?thesis using True u by simp
    next
      case False
      then have "damage_redraw ?rect (Some region) =
        (True, [clutter_actor_queue_redraw_with_clip
                  (cairo_region_get_extents (cairo_region_intersect_rectangle region ?rect))])"
        and "bounding_extents
              (cairo_region_get_extents (cairo_region_intersect_rectangle region ?rect))
              (region_points region \<inter> rect_points ?rect)"
        using d by blast+
      then show ?thesis using False u by simp
    qed
  qed
  show ?thesis
    unfolding Let_def using a b c by blast
qed

theorem update_area_redraw_witness:
  "rectangle_fits_gint \<lparr> rect_x = 8, rect_y = 5, rect_width = 30, rect_height = 2 \<rparr> \<and>
   meta_shaped_texture_update_area
     (meta_shaped_texture_init\<lparr>texture := Some \<lparr> cogl_texture_get_width = 100,
        cogl_texture_get_height = 100, meta_texture_rectangle_check = False \<rparr>\<rparr>)
     8 5 30 2
     (Some [\<lparr> rect_x = 0, rect_y = 0, rect_width = 10, rect_height = 10 \<rparr>,
            \<lparr> rect_x = 20, rect_y = 0, rect_width = 10, rect_height = 10 \<rparr>]) 1000
   = (True,
      meta_shaped_texture_init\<lparr>texture := Some \<lparr> cogl_texture_get_width = 100,
        cogl_texture_get_height = 100, meta_texture_rectangle_check = False \<rparr>,
        last_invalidation := 1000\<rparr>,
      [cogl_texture_pixmap_x11_update_area 8 5 30 2,
       meta_texture_tower_update_area 8 5 30 2,
       clutter_actor_queue_redraw_with_clip
         \<lparr> rect_x = 8, rect_y = 5, rect_width = 22, rect_height = 2 \<rparr>]) \<and>
   bounding_extents \<lparr> rect_x = 8, rect_y = 5, rect_width = 22, rect_height = 2 \<rparr>
     (region_points [\<lparr> rect_x = 0, rect_y = 0, rect_width = 10, rect_height = 10 \<rparr>,
        \<lparr> rect_x = 20, rect_y = 0, rect_width = 10, rect_height = 10 \<rparr>]
      \<inter> rect_points \<lparr> rect_x = 8, rect_y = 5, rect_width = 30, rect_height = 2 \<rparr>) \<and>
   meta_shaped_texture_update_area
     (meta_shaped_texture_init\<lparr>texture := Some \<lparr> cogl_texture_get_width = 100,
        cogl_texture_get_height = 100, meta_texture_rectangle_check = False \<rparr>\<rparr>)
     8 5 30 2 (Some []) 1000
   = (False,
      meta_shaped_texture_init\<lparr>texture := Some \<lparr> cogl_texture_get_width = 100,
        cogl_texture_get_height = 100, meta_texture_rectangle_check = False \<rparr>,
        last_invalidation := 1000\<rparr>,
      [cogl_texture_pixmap_x11_update_area 8 5 30 2,
       meta_texture_tower_update_area 8 5 30 2])"
proof -
  let ?P = "meta_shaped_texture_init\<lparr>texture := Some \<lparr> cogl_texture_get_width = 100,
        cogl_texture_get_height = 100, meta_texture_rectangle_check = False \<rparr>\<rparr>"
  let ?R = "[\<lparr> rect_x = 0, rect_y = 0, rect_width = 10, rect_height = 10 \<rparr>,
        \<lparr> rect_x = 20, rect_y = 0, rect_width = 10, rect_height = 10 \<rparr>]"
  let ?c = "\<lparr> rect_x = 8, rect_y = 5, rect_width = 30, rect_height = 2 \<rparr>"
  have t: "texture ?P \<noteq> None" by simp
  have f: "rectangle_fits_gint ?c"
    by (simp add: rectangle_fits_gint_def fits_gint_def)
  have ne: "\<not> cairo_region_is_empty ?R"
    by (simp add: cairo_region_is_empty_def cairo_region_num_rectangles_def)
  have "(8, 5) \<in> region_points ?R \<inter> rect_points ?c"
    by (simp add: region_points_def rect_points_def)
  then have pt: "region_points ?R \<inter> rect_points ?c \<noteq> {}"
    by blast
  have ext: "cairo_region_get_extents (cairo_region_intersect_rectangle ?R ?c)
      = \<lparr> rect_x = 8, rect_y = 5, rect_width = 22, rect_height = 2 \<rparr>"
    by (simp add: cairo_region_get_extents_def cairo_region_intersect_rectangle_def
        rectangle_intersection_def bounding_box_def Let_def)
  have em: "cairo_region_is_empty []"
    by (simp add: cairo_region_is_empty_def cairo_region_num_rectangles_def)
  have ru: "record_update 1000 ?P = ?P\<lparr>last_invalidation := 1000\<rparr>"
    by (simp add: record_update_def meta_shaped_texture_init_def)
  show ?thesis
    using update_area_redraw [of ?P 8 5 30 2 None 1000 ?R]
      update_area_redraw [of ?P 8 5 30 2 None 1000 "[]"] t f ne pt em
    unfolding Let_def ext ru by simp
qed

text \<open>
  The claim as stated fails in two places.  A new actor has no texture: an update with
  no unobscured region returns false and queues nothing.  And the damage rectangle at
  (10, 0) of width \<open>2147483647\<close> has a far edge that wraps around below its near edge:
  pixman takes it as empty, so the update returns false although the rectangle and the
  region share the pixel (10, 0).
\<close>

theorem update_area_redraw_counterexample:
  "meta_shaped_texture_update_area meta_shaped_texture_init 0 0 10 10 None 1000
     = (False, meta_shaped_texture_init, []) \<and>
   fst (meta_shaped_texture_update_area
     (meta_shaped_texture_init\<lparr>texture := Some \<lparr> cogl_texture_get_width = 100,
        cogl_texture_get_height = 100, meta_texture_rectangle_check = False \<rparr>\<rparr>)
     10 0 2147483647 10
     (Some [\<lparr> rect_x = 0, rect_y = 0, rect_width = 100, rect_height = 100 \<rparr>]) 1000) = False \<and>
   (10, 0) \<in> region_points [\<lparr> rect_x = 0, rect_y = 0, rect_width = 100, rect_height = 100 \<rparr>]
     \<inter> rect_points \<lparr> rect_x = 10, rect_y = 0, rect_width = 2147483647, rect_height = 10 \<rparr>"
  by (simp add: meta_shaped_texture_update_area_def meta_shaped_texture_init_def damage_redraw_def
      Let_def cairo_region_is_empty_def cairo_region_num_rectangles_def cairo_region_copy_def
      cairo_region_intersect_rectangle_def rectangle_intersection_def gint_edges_def
      gint_wrap_def region_points_def rect_points_def)

subsection \<open>The clipped paint\<close>

text \<open>
  Claim C5.  When the clip region has at most \<open>MAX_RECTS\<close> rectangles, the destination
  rectangles the paint draws are, in order, the converted corners of the integer
  rectangles \<open>rs\<close> that remain of the clip rectangles inside the texture rectangle.  The
  union of \<open>rs\<close> is the clip region intersected with the texture rectangle, and no
  rectangle of \<open>rs\<close> leaves the clip region or the texture rectangle.
\<close>

theorem paint_rectangles_union:
  assumes "clip_region priv = Some region"
    and "cairo_region_num_rectangles region \<le> MAX_RECTS"
  shows "(let tex_rect = \<lparr> rect_x = 0, rect_y = 0, rect_width = int (tex_width priv),
                            rect_height = int (tex_height priv) \<rparr>;
              rs = cairo_region_intersect_rectangle region tex_rect
          in map draw_destination (paint_rectangles F priv alloc) = map (float_corners F) rs \<and>
             (\<Union>r \<in> set rs. rect_points r) = region_points region \<inter> rect_points tex_rect \<and>
             (\<forall>r \<in> set rs. rect_points r \<subseteq> region_points region \<and>
                             rect_points r \<subseteq> rect_points tex_rect))"
proof -
  define tex_rect where "tex_rect = \<lparr> rect_x = 0, rect_y = 0, rect_width = int (tex_width priv),
                            rect_height = int (tex_height priv) \<rparr>"
  define rs where "rs = cairo_region_intersect_rectangle region tex_rect"
  have draws: "paint_rectangles F priv alloc = map (paint_clipped_rectangle F alloc) rs"
    using assms by (simp add: paint_rectangles_def Let_def paint_clip_rectangles_map rs_def tex_rect_def)
  have dest: "map draw_destination (paint_rectangles F priv alloc) = map (float_corners F) rs"
    by (simp add: draws draw_destination_clipped)
  have un: "(\<Union>r \<in> set rs. rect_points r) = region_points region \<inter> rect_points tex_rect"
    using intersect_rectangle_points [of region tex_rect] by (simp add: rs_def region_points_def)
  have sub: "\<forall>r \<in> set rs. rect_points r \<subseteq> region_points region \<and>
                             rect_points r \<subseteq> rect_points tex_rect"
    using un by blast
  show ?thesis
    using dest un sub by (simp add: Let_def tex_rect_def [symmetric] rs_def [symmetric])
qed

theorem paint_rectangles_union_witness:
  "clip_region (meta_shaped_texture_init\<lparr>clip_region :=
       Some [\<lparr> rect_x = 50, rect_y = 50, rect_width = 100, rect_height = 100 \<rparr>,
             \<lparr> rect_x = - 10, rect_y = - 10, rect_width = 5, rect_height = 5 \<rparr>],
       tex_width := 100, tex_height := 100\<rparr>)
     = Some [\<lparr> rect_x = 50, rect_y = 50, rect_width = 100, rect_height = 100 \<rparr>,
             \<lparr> rect_x = - 10, rect_y = - 10, rect_width = 5, rect_height = 5 \<rparr>] \<and>
   cairo_region_num_rectangles
       [\<lparr> rect_x = 50, rect_y = 50, rect_width = 100, rect_height = 100 \<rparr>,
        \<lparr> rect_x = - 10, rect_y = - 10, rect_width = 5, rect_height = 5 \<rparr>] \<le> MAX_RECTS \<and>
   map draw_destination (paint_rectangles exact_floats
     (meta_shaped_texture_init\<lparr>clip_region :=
       Some [\<lparr> rect_x = 50, rect_y = 50, rect_width = 100, rect_height = 100 \<rparr>,
             \<lparr> rect_x = - 10, rect_y = - 10, rect_width = 5, rect_height = 5 \<rparr>],
       tex_width := 100, tex_height := 100\<rparr>)
     \<lparr> box_x1 = 0, box_y1 = 0, box_x2 = 100, box_y2 = 100 \<rparr>)
     = [(50, 50, 100, 100)] \<and>
   region_points [\<lparr> rect_x = 50, rect_y = 50, rect_width = 100, rect_height = 100 \<rparr>,
             \<lparr> rect_x = - 10, rect_y = - 10, rect_width = 5, rect_height = 5 \<rparr>]
     \<inter> rect_points \<lparr> rect_x = 0, rect_y = 0, rect_width = 100, rect_height = 100 \<rparr>
     = rect_points \<lparr> rect_x = 50, rect_y = 50, rect_width = 50, rect_height = 50 \<rparr>"
proof -
  let ?R = "[\<lparr> rect_x = 50, rect_y = 50, rect_width = 100, rect_height = 100 \<rparr>,
             \<lparr> rect_x = - 10, rect_y = - 10, rect_width = 5, rect_height = 5 \<rparr>]"
  let ?P = "meta_shaped_texture_init\<lparr>clip_region := Some ?R, tex_width := 100, tex_height := 100\<rparr>"
  have h1: "clip_region ?P = Some ?R" by simp
  have h2: "cairo_region_num_rectangles ?R \<le> MAX_RECTS"
    by (simp add: cairo_region_num_rectangles_def MAX_RECTS_def)
  have rs: "cairo_region_intersect_rectangle ?R
              \<lparr> rect_x = 0, rect_y = 0, rect_width = 100, rect_height = 100 \<rparr>
            = [\<lparr> rect_x = 50, rect_y = 50, rect_width = 50, rect_height = 50 \<rparr>]"
    by (simp add: cairo_region_intersect_rectangle_def rectangle_intersection_def Let_def)
  show ?thesis
    using paint_rectangles_union [OF h1 h2, of exact_floats
        "\<lparr> box_x1 = 0, box_y1 = 0, box_x2 = 100, box_y2 = 100 \<rparr>"] h1 h2
    by (simp add: Let_def rs float_corners_def exact_floats_def)
qed

text \<open>
  Claim C6.  When the clip region has more than \<open>MAX_RECTS\<close> rectangles, the paint draws
  no rectangle of the clip region: it draws the single rectangle of the size of the
  allocation that it draws when no clip region is set.
\<close>

theorem paint_rectangles_fallback:
  assumes "clip_region priv = Some region"
    and "MAX_RECTS < cairo_region_num_rectangles region"
  shows "paint_rectangles F priv alloc =
           [cogl_rectangle (float_of_int F 0) (float_of_int F 0)
              (float_sub F (box_x2 alloc) (box_x1 alloc))
              (float_sub F (box_y2 alloc) (box_y1 alloc))] \<and>
         paint_rectangles F priv alloc = paint_rectangles F (priv\<lparr>clip_region := None\<rparr>) alloc"
  using assms by (simp add: paint_rectangles_def full_repaint_def Let_def)

theorem paint_rectangles_fallback_witness:
  "MAX_RECTS < cairo_region_num_rectangles
      (map (\<lambda>i. \<lparr> rect_x = 2 * int i, rect_y = 0, rect_width = 1, rect_height = 1 \<rparr>) [0..<17]) \<and>
   cairo_region_num_rectangles
      (map (\<lambda>i. \<lparr> rect_x = 2 * int i, rect_y = 0, rect_width = 1, rect_height = 1 \<rparr>) [0..<17]) = 17 \<and>
   paint_rectangles exact_floats
     (meta_shaped_texture_init\<lparr>clip_region :=
        Some (map (\<lambda>i. \<lparr> rect_x = 2 * int i, rect_y = 0, rect_width = 1, rect_height = 1 \<rparr>) [0..<17]),
        tex_width := 100, tex_height := 100\<rparr>)
     \<lparr> box_x1 = 0, box_y1 = 0, box_x2 = 100, box_y2 = 100 \<rparr>
     = [cogl_rectangle 0 0 100 100]"
proof -
  let ?R = "map (\<lambda>i. \<lparr> rect_x = 2 * int i, rect_y = 0, rect_width = 1, rect_height = 1 \<rparr>) [0..<17]"
  let ?P = "meta_shaped_texture_init\<lparr>clip_region := Some ?R, tex_width := 100, tex_height := 100\<rparr>"
  have h1: "clip_region ?P = Some ?R" by simp
  have n: "cairo_region_num_rectangles ?R = 17"
    by (simp add: cairo_region_num_rectangles_def)
  have h2: "MAX_RECTS < cairo_region_num_rectangles ?R"
    by (simp add: n MAX_RECTS_def)
  show ?thesis
    using paint_rectangles_fallback [OF h1 h2, of exact_floats
        "\<lparr> box_x1 = 0, box_y1 = 0, box_x2 = 100, box_y2 = 100 \<rparr>"] h2 n
    by (simp add: exact_floats_def)
qed

text \<open>
  Claim C7, amended.  For the rectangles \<open>rs\<close> that remain of the clip rectangles inside
  the texture rectangle, the texture coordinates drawn are the corners of the rectangle
  divided by the width and the height of the allocation box; the four coordinates are
  given twice, once for each layer.  They are the corners divided by the width and
  height of the texture rectangle when the allocation box has that width and height.
\<close>

theorem paint_rectangles_coords:
  assumes "clip_region priv = Some region"
    and "cairo_region_num_rectangles region \<le> MAX_RECTS"
  shows "(let tex_rect = \<lparr> rect_x = 0, rect_y = 0, rect_width = int (tex_width priv),
                            rect_height = int (tex_height priv) \<rparr>;
              rs = cairo_region_intersect_rectangle region tex_rect;
              w = float_sub F (box_x2 alloc) (box_x1 alloc);
              h = float_sub F (box_y2 alloc) (box_y1 alloc)
          in map draw_coords (paint_rectangles F priv alloc) =
               map (\<lambda>r. normalized_coords F w h r @ normalized_coords F w h r) rs \<and>
             (w = float_of_int F (int (tex_width priv)) \<and>
              h = float_of_int F (int (tex_height priv)) \<longrightarrow>
              map draw_coords (paint_rectangles F priv alloc) =
                map (\<lambda>r. normalized_coords F (float_of_int F (rect_width tex_rect))
                            (float_of_int F (rect_height tex_rect)) r @
                          normalized_coords F (float_of_int F (rect_width tex_rect))
                            (float_of_int F (rect_height tex_rect)) r) rs))"
  using assms
  by (simp add: paint_rectangles_def Let_def paint_clip_rectangles_map draw_coords_clipped)

theorem paint_rectangles_coords_witness:
  "cairo_region_num_rectangles
       [\<lparr> rect_x = 50, rect_y = 50, rect_width = 50, rect_height = 50 \<rparr>] \<le> MAX_RECTS \<and>
   map draw_coords (paint_rectangles exact_floats
     (meta_shaped_texture_init\<lparr>clip_region :=
       Some [\<lparr> rect_x = 50, rect_y = 50, rect_width = 50, rect_height = 50 \<rparr>],
       tex_width := 100, tex_height := 100\<rparr>)
     \<lparr> box_x1 = 10, box_y1 = 20, box_x2 = 110, box_y2 = 120 \<rparr>)
     = [[1 / 2, 1 / 2, 1, 1, 1 / 2, 1 / 2, 1, 1]]"
proof -
  let ?R = "[\<lparr> rect_x = 50, rect_y = 50, rect_width = 50, rect_height = 50 \<rparr>]"
  let ?P = "meta_shaped_texture_init\<lparr>clip_region := Some ?R, tex_width := 100, tex_height := 100\<rparr>"
  have h1: "clip_region ?P = Some ?R" by simp
  have h2: "cairo_region_num_rectangles ?R \<le> MAX_RECTS"
    by (simp add: cairo_region_num_rectangles_def MAX_RECTS_def)
  have rs: "cairo_region_intersect_rectangle ?R
              \<lparr> rect_x = 0, rect_y = 0, rect_width = 100, rect_height = 100 \<rparr> = ?R"
    by (simp add: cairo_region_intersect_rectangle_def rectangle_intersection_def Let_def)
  show ?thesis
    using paint_rectangles_coords [OF h1 h2, of exact_floats
        "\<lparr> box_x1 = 10, box_y1 = 20, box_x2 = 110, box_y2 = 120 \<rparr>"] h2
    by (simp add: Let_def rs normalized_coords_def exact_floats_def)
qed

text \<open>
  The claim as stated fails where the allocation is not of the texture's size: a 100
  by 100 texture allocated 200 by 200 gives the clip rectangle at (50, 50) the
  coordinates 1/4 and 1/2, not the 1/2 and 1 that the texture rectangle's extent gives.
\<close>

theorem paint_rectangles_coords_counterexample:
  "map draw_coords (paint_rectangles exact_floats
     (meta_shaped_texture_init\<lparr>clip_region :=
       Some [\<lparr> rect_x = 50, rect_y = 50, rect_width = 50, rect_height = 50 \<rparr>],
       tex_width := 100, tex_height := 100\<rparr>)
     \<lparr> box_x1 = 0, box_y1 = 0, box_x2 = 200, box_y2 = 200 \<rparr>)
     = [[1 / 4, 1 / 4, 1 / 2, 1 / 2, 1 / 4, 1 / 4, 1 / 2, 1 / 2]] \<and>
   normalized_coords exact_floats (float_of_int exact_floats 100) (float_of_int exact_floats 100)
       \<lparr> rect_x = 50, rect_y = 50, rect_width = 50, rect_height = 50 \<rparr>
     = [1 / 2, 1 / 2, 1, 1]"
  by (simp add: paint_rectangles_def meta_shaped_texture_init_def cairo_region_num_rectangles_def
      MAX_RECTS_def gdk_rectangle_intersect_def paint_clipped_rectangle_def Let_def
      exact_floats_def normalized_coords_def)

subsection \<open>The overlay\<close>

text \<open>
  Claim C8.  In every state, setting the overlay to no region and no path returns the
  state with \<open>overlay_region\<close>, \<open>overlay_path\<close> and \<open>mask_texture\<close> cleared and the mask
  layer of the pipeline unset, every other field as it was.  The calls made are
  \<open>cairo_region_destroy\<close> on the stored region when there was one,
  \<open>cairo_path_destroy\<close> on the stored path when there was one, and \<open>cogl_object_unref\<close> on
  the mask texture when there was one; no call reads the absent region.
\<close>

theorem set_overlay_path_clears:
  "meta_shaped_texture_set_overlay_path priv None None =
     (priv\<lparr>overlay_region := None, overlay_path := None, mask_texture := None,
            pipeline := map_option (\<lambda>p. p\<lparr>layer1 := None\<rparr>) (pipeline priv)\<rparr>,
      (case overlay_region priv of Some r \<Rightarrow> [cairo_region_destroy r] | None \<Rightarrow> []) @
      (case overlay_path priv of Some p \<Rightarrow> [cairo_path_destroy p] | None \<Rightarrow> []) @
      (case mask_texture priv of Some m \<Rightarrow> [cogl_object_unref m] | None \<Rightarrow> []))"
  by (cases "overlay_region priv"; cases "overlay_path priv"; cases "mask_texture priv";
      cases "pipeline priv")
    (simp_all add: meta_shaped_texture_set_overlay_path_def meta_shaped_texture_dirty_mask_def
      cairo_region_reference_def)

theorem set_overlay_path_clears_witness:
  "meta_shaped_texture_set_overlay_path
     (meta_shaped_texture_init\<lparr>
        overlay_region := Some [\<lparr> rect_x = 0, rect_y = 0, rect_width = 4, rect_height = 4 \<rparr>],
        overlay_path := Some (\<lambda>px py. 255),
        mask_texture := Some \<lparr> mask_tex_width = 1, mask_tex_height = 1, mask_tex_stride = 4,
                                mask_tex_data = [0, 0, 0, 0], mask_tex_rectangle = False \<rparr>\<rparr>)
     None None
   = (meta_shaped_texture_init,
      [cairo_region_destroy [\<lparr> rect_x = 0, rect_y = 0, rect_width = 4, rect_height = 4 \<rparr>],
       cairo_path_destroy (\<lambda>px py. 255),
       cogl_object_unref \<lparr> mask_tex_width = 1, mask_tex_height = 1, mask_tex_stride = 4,
                            mask_tex_data = [0, 0, 0, 0], mask_tex_rectangle = False \<rparr>]) \<and>
   meta_shaped_texture_set_overlay_path meta_shaped_texture_init None None
   = (meta_shaped_texture_init, [])"
  using set_overlay_path_clears [of "meta_shaped_texture_init\<lparr>
        overlay_region := Some [\<lparr> rect_x = 0, rect_y = 0, rect_width = 4, rect_height = 4 \<rparr>],
        overlay_path := Some (\<lambda>px py. 255),
        mask_texture := Some \<lparr> mask_tex_width = 1, mask_tex_height = 1, mask_tex_stride = 4,
                                mask_tex_data = [0, 0, 0, 0], mask_tex_rectangle = False \<rparr>\<rparr>"]
    set_overlay_path_clears [of meta_shaped_texture_init]
  by (simp add: meta_shaped_texture_init_def)

subsection \<open>The flattened image\<close>

lemma get_image_no_texture:
  "texture priv = None \<Longrightarrow> meta_shaped_texture_get_image priv clip = (None, clip)"
  by (simp add: meta_shaped_texture_get_image_def)

lemma get_image_unclipped:
  assumes "texture priv = Some tex"
  shows "\<exists>surface. meta_shaped_texture_get_image priv None = (Some surface, None) \<and>
           surface_format surface = CAIRO_FORMAT_ARGB32 \<and>
           surface_width surface = int (cogl_texture_get_width tex) \<and>
           surface_height surface = int (cogl_texture_get_height tex)"
  using assms
  by (cases "mask_texture priv")
    (simp_all add: meta_shaped_texture_get_image_def Let_def cairo_image_surface_create_def)

lemma get_image_outside:
  assumes "texture priv = Some tex"
    and "rectangle_intersection (gint_edges c) \<lparr> rect_x = 0, rect_y = 0,
           rect_width = int (cogl_texture_get_width tex),
           rect_height = int (cogl_texture_get_height tex) \<rparr> = None"
  shows "meta_shaped_texture_get_image priv (Some c)
           = (None, Some (c\<lparr>rect_width := 0, rect_height := 0\<rparr>))"
  using assms
  by (simp add: meta_shaped_texture_get_image_def Let_def gdk_rectangle_intersect_eq)

lemma get_image_clipped:
  assumes "texture priv = Some tex"
    and "rectangle_intersection (gint_edges c) \<lparr> rect_x = 0, rect_y = 0,
           rect_width = int (cogl_texture_get_width tex),
           rect_height = int (cogl_texture_get_height tex) \<rparr> = Some c'"
  shows "\<exists>surface. meta_shaped_texture_get_image priv (Some c) = (Some surface, Some c') \<and>
           surface_format surface = CAIRO_FORMAT_ARGB32 \<and>
           surface_width surface = rect_width c' \<and>
           surface_height surface = rect_height c'"
  using assms rectangle_intersection_ok [OF assms(2)]
  by (cases "mask_texture priv")
    (simp_all add: meta_shaped_texture_get_image_def Let_def gdk_rectangle_intersect_eq
      cairo_image_surface_create_def cogl_texture_new_from_sub_texture_def)

text \<open>
  Claim C10, amended.  For no clip, or a clip rectangle whose fields and sums
  \<open>x + width\<close>, \<open>y + height\<close> fit 32 bits: \<open>meta_shaped_texture_get_image\<close> returns \<open>NULL\<close>
  only when no texture is bound or when the clip has no pixel inside the texture's
  rectangle.  In every other case it returns an ARGB32 surface built in the call: of
  the texture's size when no clip is given, and otherwise of the size of the clip
  rectangle intersected with the texture's rectangle, which is what \<open>clip\<close> holds when
  the function returns.
\<close>

theorem get_image_result:
  assumes fits: "case clip of None \<Rightarrow> True | Some c \<Rightarrow> rectangle_fits_gint c"
  shows
  "(case meta_shaped_texture_get_image priv clip of
      (None, clip') \<Rightarrow>
        texture priv = None \<or>
        (\<exists>tex c. texture priv = Some tex \<and> clip = Some c \<and>
           rect_points c \<inter>
             rect_points \<lparr> rect_x = 0, rect_y = 0,
                           rect_width = int (cogl_texture_get_width tex),
                           rect_height = int (cogl_texture_get_height tex) \<rparr> = {})
    | (Some surface, clip') \<Rightarrow>
        (\<exists>tex. texture priv = Some tex \<and> surface_format surface = CAIRO_FORMAT_ARGB32 \<and>
           (case clip of
              None \<Rightarrow>
                clip' = None \<and>
                surface_width surface = int (cogl_texture_get_width tex) \<and>
                surface_height surface = int (cogl_texture_get_height tex)
            | Some c \<Rightarrow>
                (\<exists>c'. clip' = Some c' \<and>
                   rect_points c' =
                     rect_points c \<inter>
                       rect_points \<lparr> rect_x = 0, rect_y = 0,
                                     rect_width = int (cogl_texture_get_width tex),
                                     rect_height = int (cogl_texture_get_height tex) \<rparr> \<and>
                   rect_points c' \<noteq> {} \<and>
                   surface_width surface = rect_width c' \<and>
                   surface_height surface = rect_height c'))))"
proof (cases "texture priv")
  case None
  then show ?thesis by (simp add: get_image_no_texture)
next
  case (Some tex)
  let ?b = "\<lparr> rect_x = 0, rect_y = 0, rect_width = int (cogl_texture_get_width tex),
               rect_height = int (cogl_texture_get_height tex) \<rparr>"
  show ?thesis
  proof (cases clip)
    case None
    obtain surface where "meta_shaped_texture_get_image priv None = (Some surface, None)"
      "surface_format surface = CAIRO_FORMAT_ARGB32"
      "surface_width surface = int (cogl_texture_get_width tex)"
      "surface_height surface = int (cogl_texture_get_height tex)"
      using get_image_unclipped [OF Some] by blast
    then show ?thesis using Some None by simp
  next
    case c: (Some c)
    have g: "gint_edges c = c"
      using fits c gint_edges_fits by simp
    show ?thesis
    proof (cases "rectangle_intersection c ?b")
      case None
      have "rect_points c \<inter> rect_points ?b = {}"
        using rectangle_intersection_None [OF None] .
      then show ?thesis
        using Some c get_image_outside [of priv tex c] None g by simp
    next
      case i: (Some c')
      obtain surface where s: "meta_shaped_texture_get_image priv (Some c) = (Some surface, Some c')"
        "surface_format surface = CAIRO_FORMAT_ARGB32"
        "surface_width surface = rect_width c'"
        "surface_height surface = rect_height c'"
        using get_image_clipped [of priv tex c c'] Some i g by auto
      have pts: "rect_points c' = rect_points c \<inter> rect_points ?b"
        using rectangle_intersection_Some [OF i] .
      have "(rect_x c', rect_y c') \<in> rect_points c'"
        using rectangle_intersection_ok [OF i] rect_points_corner by blast
      then have ne: "rect_points c' \<noteq> {}" by blast
      show ?thesis
        using Some c s pts ne by simp
    qed
  qed
qed

theorem get_image_result_witness:
  "rectangle_fits_gint \<lparr> rect_x = 25, rect_y = 25, rect_width = 100, rect_height = 50 \<rparr> \<and>
   meta_shaped_texture_get_image
     (meta_shaped_texture_init\<lparr>texture := Some \<lparr> cogl_texture_get_width = 100,
        cogl_texture_get_height = 100, meta_texture_rectangle_check = False \<rparr>\<rparr>)
     (Some \<lparr> rect_x = 25, rect_y = 25, rect_width = 100, rect_height = 50 \<rparr>)
   = (Some \<lparr> surface_format = CAIRO_FORMAT_ARGB32, surface_width = 75, surface_height = 50,
             surface_texture_part = Some \<lparr> rect_x = 25, rect_y = 25, rect_width = 75, rect_height = 50 \<rparr>,
             surface_mask = None \<rparr>,
      Some \<lparr> rect_x = 25, rect_y = 25, rect_width = 75, rect_height = 50 \<rparr>) \<and>
   fst (meta_shaped_texture_get_image
     (meta_shaped_texture_init\<lparr>texture := Some \<lparr> cogl_texture_get_width = 100,
        cogl_texture_get_height = 100, meta_texture_rectangle_check = False \<rparr>\<rparr>)
     (Some \<lparr> rect_x = 100, rect_y = 0, rect_width = 10, rect_height = 10 \<rparr>)) = None \<and>
   fst (meta_shaped_texture_get_image meta_shaped_texture_init None) = None"
proof -
  have f: "rectangle_fits_gint \<lparr> rect_x = 25, rect_y = 25, rect_width = 100, rect_height = 50 \<rparr>"
    by (simp add: rectangle_fits_gint_def fits_gint_def)
  then have f': "case Some \<lparr> rect_x = 25, rect_y = 25, rect_width = 100, rect_height = 50 \<rparr> of
                   None \<Rightarrow> True | Some c \<Rightarrow> rectangle_fits_gint c"
    by simp
  show ?thesis
    using get_image_result [OF f', of "meta_shaped_texture_init\<lparr>texture := Some \<lparr> cogl_texture_get_width = 100,
        cogl_texture_get_height = 100, meta_texture_rectangle_check = False \<rparr>\<rparr>"] f
    by (simp add: meta_shaped_texture_get_image_def meta_shaped_texture_init_def Let_def
        gdk_rectangle_intersect_def cairo_image_surface_create_def
        cogl_texture_new_from_sub_texture_def gint_edges_def gint_wrap_def)
qed

text \<open>
  The claim as stated fails for a clip whose far edge does not fit 32 bits: on a 100 by
  100 texture the clip at (10, 0) of width \<open>2147483647\<close> shares the pixel (10, 0) with the
  texture, yet its far edge wraps around, the intersection fails and \<open>NULL\<close> is returned,
  the clip left with width and height 0.
\<close>

theorem get_image_result_counterexample:
  "texture (meta_shaped_texture_init\<lparr>texture := Some \<lparr> cogl_texture_get_width = 100,
        cogl_texture_get_height = 100, meta_texture_rectangle_check = False \<rparr>\<rparr>) \<noteq> None \<and>
   (10, 0) \<in> rect_points \<lparr> rect_x = 10, rect_y = 0, rect_width = 2147483647, rect_height = 10 \<rparr>
     \<inter> rect_points \<lparr> rect_x = 0, rect_y = 0, rect_width = 100, rect_height = 100 \<rparr> \<and>
   meta_shaped_texture_get_image
     (meta_shaped_texture_init\<lparr>texture := Some \<lparr> cogl_texture_get_width = 100,
        cogl_texture_get_height = 100, meta_texture_rectangle_check = False \<rparr>\<rparr>)
     (Some \<lparr> rect_x = 10, rect_y = 0, rect_width = 2147483647, rect_height = 10 \<rparr>)
   = (None, Some \<lparr> rect_x = 10, rect_y = 0, rect_width = 0, rect_height = 0 \<rparr>)"
  by (simp add: meta_shaped_texture_get_image_def meta_shaped_texture_init_def Let_def
      gdk_rectangle_intersect_def gint_edges_def gint_wrap_def rect_points_def)

subsection \<open>The mask\<close>

lemma nth_fill:
  "a + k \<le> length d \<Longrightarrow> i < length d \<Longrightarrow>
   (take a d @ replicate k c @ drop (a + k) d) ! i = (if a \<le> i \<and> i < a + k then c else d ! i)"
  by (auto simp add: nth_append min_def)

lemma memset_ok:
  assumes "0 \<le> p" and "0 \<le> n" and "p + n \<le> int (length d)"
  shows "\<exists>d'. memset d p c n = Inr d' \<and> length d' = length d \<and>
           (\<forall>i. 0 \<le> i \<and> i < int (length d) \<longrightarrow>
                d' ! nat i = (if p \<le> i \<and> i < p + n then c else d ! nat i))"
proof -
  let ?d' = "take (nat p) d @ replicate (nat n) c @ drop (nat (p + n)) d"
  have m: "memset d p c n = Inr ?d'"
    using assms by (simp add: memset_def)
  have s: "nat (p + n) = nat p + nat n"
    using assms by (simp add: nat_add_distrib)
  have b: "nat p + nat n \<le> length d"
    using assms by linarith
  have l: "length ?d' = length d"
    using b by (simp add: s)
  have "?d' ! nat i = (if p \<le> i \<and> i < p + n then c else d ! nat i)"
    if "0 \<le> i" "i < int (length d)" for i
  proof -
    have "nat i < length d" using that by linarith
    then have "?d' ! nat i = (if nat p \<le> nat i \<and> nat i < nat p + nat n then c else d ! nat i)"
      unfolding s using nth_fill [OF b] by blast
    moreover have "(nat p \<le> nat i \<and> nat i < nat p + nat n) \<longleftrightarrow> (p \<le> i \<and> i < p + n)"
      using that assms by linarith
    ultimately show ?thesis by simp
  qed
  then show ?thesis using m l by blast
qed

lemma row_index_iff:
  fixes stride :: int
  assumes "0 < stride" and "0 \<le> x1" and "x1 + n \<le> stride" and "0 \<le> px" and "px < stride"
  shows "(y1 * stride + x1 \<le> py * stride + px \<and> py * stride + px < y1 * stride + x1 + n)
           \<longleftrightarrow> (py = y1 \<and> x1 \<le> px \<and> px < x1 + n)"
proof -
  consider "py < y1" | "py = y1" | "y1 < py" by linarith
  then show ?thesis
  proof cases
    case 1
    then have "(py + 1) * stride \<le> y1 * stride"
      using assms(1) by (intro mult_right_mono) simp_all
    then have "py * stride + stride \<le> y1 * stride"
      by (simp add: algebra_simps)
    then show ?thesis using 1 assms by linarith
  next
    case 2
    then show ?thesis by simp
  next
    case 3
    then have "(y1 + 1) * stride \<le> py * stride"
      using assms(1) by (intro mult_right_mono) simp_all
    then have "y1 * stride + stride \<le> py * stride"
      by (simp add: algebra_simps)
    then show ?thesis using 3 assms by linarith
  qed
qed

lemma fill_rows_ok:
  assumes "0 < stride" and "0 \<le> x1" and "0 \<le> n" and "x1 + n \<le> stride"
    and "0 \<le> y1" and "y2 * stride \<le> int (length d)"
  shows "\<exists>d'. fill_rows d (y1 * stride + x1) y1 y2 stride n = Inr d' \<and> length d' = length d \<and>
           (\<forall>px py. 0 \<le> px \<and> px < stride \<and> 0 \<le> py \<and> py * stride + px < int (length d) \<longrightarrow>
                d' ! nat (py * stride + px) =
                  (if y1 \<le> py \<and> py < y2 \<and> x1 \<le> px \<and> px < x1 + n then 255
                   else d ! nat (py * stride + px)))"
  using assms(5,6)
proof (induction "nat (y2 - y1)" arbitrary: d y1)
  case 0
  then have ge: "\<not> y1 < y2" by linarith
  have run: "fill_rows d (y1 * stride + x1) y1 y2 stride n = Inr d"
    by (subst fill_rows.simps) (simp add: ge)
  have "\<not> (y1 \<le> py \<and> py < y2 \<and> x1 \<le> px \<and> px < x1 + n)" for px py
    using ge by linarith
  then show ?case
    using run by auto
next
  case (Suc k)
  then have lt: "y1 < y2" by linarith
  let ?p = "y1 * stride + x1"
  have "(y1 + 1) * stride \<le> y2 * stride"
    using lt assms(1) by (intro mult_right_mono) simp_all
  then have row: "y1 * stride + stride \<le> int (length d)"
    using Suc.prems(2) by (simp add: algebra_simps)
  have "0 \<le> y1 * stride" using Suc.prems(1) assms(1) by simp
  then have p0: "0 \<le> ?p" using assms(2) by linarith
  have pn: "?p + n \<le> int (length d)" using row assms(4) by linarith
  obtain d1 where d1: "memset d ?p 255 n = Inr d1" "length d1 = length d"
    and d1n: "\<And>i. 0 \<le> i \<Longrightarrow> i < int (length d) \<Longrightarrow>
                d1 ! nat i = (if ?p \<le> i \<and> i < ?p + n then 255 else d ! nat i)"
    using memset_ok [OF p0 assms(3) pn, of 255] by blast
  have k: "k = nat (y2 - (y1 + 1))" using Suc.hyps(2) by linarith
  have y1': "0 \<le> y1 + 1" using Suc.prems(1) by simp
  have len': "y2 * stride \<le> int (length d1)" using Suc.prems(2) d1(2) by simp
  obtain d' where d': "fill_rows d1 ((y1 + 1) * stride + x1) (y1 + 1) y2 stride n = Inr d'"
      "length d' = length d1"
    and d'n: "\<And>px py. 0 \<le> px \<Longrightarrow> px < stride \<Longrightarrow> 0 \<le> py \<Longrightarrow>
                py * stride + px < int (length d1) \<Longrightarrow>
                d' ! nat (py * stride + px) =
                  (if y1 + 1 \<le> py \<and> py < y2 \<and> x1 \<le> px \<and> px < x1 + n then 255
                   else d1 ! nat (py * stride + px))"
    using Suc.hyps(1) [OF k y1' len'] by blast
  have step: "?p + stride = (y1 + 1) * stride + x1"
    by (simp add: algebra_simps)
  have run: "fill_rows d ?p y1 y2 stride n = Inr d'"
    by (subst fill_rows.simps) (simp add: lt d1(1) step d'(1))
  have px: "d' ! nat (py * stride + px) =
              (if y1 \<le> py \<and> py < y2 \<and> x1 \<le> px \<and> px < x1 + n then 255
               else d ! nat (py * stride + px))"
    if "0 \<le> px" "px < stride" "0 \<le> py" "py * stride + px < int (length d)" for px py
  proof -
    have "0 \<le> py * stride" using that(3) assms(1) by simp
    then have i0: "0 \<le> py * stride + px" using that(1) by linarith
    have a: "d' ! nat (py * stride + px) =
                  (if y1 + 1 \<le> py \<and> py < y2 \<and> x1 \<le> px \<and> px < x1 + n then 255
                   else d1 ! nat (py * stride + px))"
      using d'n that by (simp add: d1(2))
    have b: "d1 ! nat (py * stride + px) =
        (if ?p \<le> py * stride + px \<and> py * stride + px < ?p + n then 255
         else d ! nat (py * stride + px))"
      using d1n [OF i0 that(4)] .
    have c: "(?p \<le> py * stride + px \<and> py * stride + px < ?p + n)
               \<longleftrightarrow> (py = y1 \<and> x1 \<le> px \<and> px < x1 + n)"
      using row_index_iff [OF assms(1,2,4) that(1,2)] .
    show ?thesis
      unfolding a b c using lt by auto
  qed
  show ?case
    using run d'(2) d1(2) px by simp
qed

lemma CLAMP_bounds: "low \<le> high \<Longrightarrow> low \<le> CLAMP v low high \<and> CLAMP v low high \<le> high"
  by (simp add: CLAMP_def)

lemma fill_rectangles_ok:
  assumes "0 < tw" and "0 < th" and "int tw \<le> stride" and "int th * stride \<le> int (length d)"
  shows "\<exists>d'. fill_rectangles d region tw th stride = Inr d' \<and> length d' = length d \<and>
           (\<forall>px py. 0 \<le> px \<and> px < stride \<and> 0 \<le> py \<and> py * stride + px < int (length d) \<longrightarrow>
                d' ! nat (py * stride + px) =
                  (if \<exists>r \<in> set region. fill_covers tw th r px py then 255
                   else d ! nat (py * stride + px)))"
  using assms(4)
proof (induction region arbitrary: d)
  case Nil
  then show ?case by simp
next
  case (Cons r region)
  define x1 where "x1 = CLAMP (rect_x r) 0 (int tw - 1)"
  define x2 where "x2 = CLAMP (rect_x r + rect_width r) x1 (int tw)"
  define y1 where "y1 = CLAMP (rect_y r) 0 (int th - 1)"
  define y2 where "y2 = CLAMP (rect_y r + rect_height r) y1 (int th)"
  have bx1: "0 \<le> x1 \<and> x1 \<le> int tw - 1"
    unfolding x1_def using assms(1) by (intro CLAMP_bounds) simp
  then have bx2: "x1 \<le> x2 \<and> x2 \<le> int tw"
    unfolding x2_def by (intro CLAMP_bounds) simp
  have by1: "0 \<le> y1 \<and> y1 \<le> int th - 1"
    unfolding y1_def using assms(2) by (intro CLAMP_bounds) simp
  then have by2: "y1 \<le> y2 \<and> y2 \<le> int th"
    unfolding y2_def by (intro CLAMP_bounds) simp
  have stride: "0 < stride" using assms(1,3) by linarith
  have "y2 * stride \<le> int th * stride"
    using by2 stride by (intro mult_right_mono) simp_all
  then have len: "y2 * stride \<le> int (length d)"
    using Cons.prems by linarith
  have n0: "0 \<le> x2 - x1" and xn: "x1 + (x2 - x1) \<le> stride"
    using bx2 assms(3) by simp_all
  obtain d1 where d1: "fill_rows d (y1 * stride + x1) y1 y2 stride (x2 - x1) = Inr d1"
      "length d1 = length d"
    and d1n: "\<And>px py. 0 \<le> px \<Longrightarrow> px < stride \<Longrightarrow> 0 \<le> py \<Longrightarrow>
                py * stride + px < int (length d) \<Longrightarrow>
                d1 ! nat (py * stride + px) =
                  (if y1 \<le> py \<and> py < y2 \<and> x1 \<le> px \<and> px < x1 + (x2 - x1) then 255
                   else d ! nat (py * stride + px))"
    using fill_rows_ok [OF stride _ n0 xn _ len] bx1 by1 by blast
  have len1: "int th * stride \<le> int (length d1)"
    using Cons.prems d1(2) by simp
  obtain d' where d': "fill_rectangles d1 region tw th stride = Inr d'" "length d' = length d1"
    and d'n: "\<And>px py. 0 \<le> px \<Longrightarrow> px < stride \<Longrightarrow> 0 \<le> py \<Longrightarrow>
                py * stride + px < int (length d1) \<Longrightarrow>
                d' ! nat (py * stride + px) =
                  (if \<exists>r \<in> set region. fill_covers tw th r px py then 255
                   else d1 ! nat (py * stride + px))"
    using Cons.IH [OF len1] by blast
  have run: "fill_rectangles d (r # region) tw th stride = Inr d'"
    using d1(1) d'(1)
    by (simp add: Let_def x1_def [symmetric] x2_def [symmetric] y1_def [symmetric]
        y2_def [symmetric])
  have cov: "fill_covers tw th r px py \<longleftrightarrow> (y1 \<le> py \<and> py < y2 \<and> x1 \<le> px \<and> px < x1 + (x2 - x1))"
    for px py
    by (auto simp add: fill_covers_def Let_def x1_def x2_def y1_def y2_def)
  have px: "d' ! nat (py * stride + px) =
              (if \<exists>q \<in> set (r # region). fill_covers tw th q px py then 255
               else d ! nat (py * stride + px))"
    if "0 \<le> px" "px < stride" "0 \<le> py" "py * stride + px < int (length d)" for px py
    using d'n [OF that(1,2,3)] d1n [OF that] that(4) cov [of px py]
    by (simp add: d1(2))
  show ?case
    using run d'(2) d1(2) px by simp
qed

lemma stride_for_width: "int w \<le> cairo_format_stride_for_width_A8 w"
  unfolding cairo_format_stride_for_width_A8_def by presburger

lemma ensure_mask_pixels:
  assumes tex: "texture priv = Some tex"
    and w: "0 < cogl_texture_get_width tex" and h: "0 < cogl_texture_get_height tex"
    and shape: "shape_region priv = Some region"
    and overlay: "overlay_region priv = None"
    and nomask: "mask_texture priv = None"
  shows "\<exists>m. meta_shaped_texture_ensure_mask priv =
             Inr (priv\<lparr>mask_texture := Some m, mask_width := cogl_texture_get_width tex,
                       mask_height := cogl_texture_get_height tex\<rparr>, []) \<and>
           mask_tex_width m = cogl_texture_get_width tex \<and>
           mask_tex_height m = cogl_texture_get_height tex \<and>
           (\<forall>px py. px < cogl_texture_get_width tex \<and> py < cogl_texture_get_height tex \<longrightarrow>
              mask_pixel m px py =
                (if \<exists>r \<in> set region. fill_covers (cogl_texture_get_width tex)
                       (cogl_texture_get_height tex) r (int px) (int py)
                 then 255 else 0))"
proof -
  define tw where "tw = cogl_texture_get_width tex"
  define th where "th = cogl_texture_get_height tex"
  define stride where "stride = cairo_format_stride_for_width_A8 tw"
  define d where "d = replicate (nat (stride * int th)) (0 :: 8 word)"
  have sw: "int tw \<le> stride" unfolding stride_def by (rule stride_for_width)
  have s0: "0 < stride" using sw w by (simp add: tw_def)
  have len: "int (length d) = int th * stride"
    using s0 by (simp add: d_def mult.commute)
  obtain d' where d': "fill_rectangles d region tw th stride = Inr d'" "length d' = length d"
    and d'n: "\<And>px py. 0 \<le> px \<Longrightarrow> px < stride \<Longrightarrow> 0 \<le> py \<Longrightarrow>
                py * stride + px < int (length d) \<Longrightarrow>
                d' ! nat (py * stride + px) =
                  (if \<exists>r \<in> set region. fill_covers tw th r px py then 255
                   else d ! nat (py * stride + px))"
    using fill_rectangles_ok [of tw th stride d region] w h sw len
    by (auto simp add: tw_def th_def)
  define m where "m = \<lparr> mask_tex_width = tw, mask_tex_height = th, mask_tex_stride = nat stride,
                         mask_tex_data = d', mask_tex_rectangle = meta_texture_rectangle_check tex \<rparr>"
  have run: "meta_shaped_texture_ensure_mask priv =
               Inr (priv\<lparr>mask_texture := Some m, mask_width := tw, mask_height := th\<rparr>, [])"
    using tex shape overlay nomask d'(1)
    by (simp add: meta_shaped_texture_ensure_mask_def Let_def install_overlay_path_def
        tw_def [symmetric] th_def [symmetric] stride_def [symmetric] d_def [symmetric] m_def)
  have pix: "mask_pixel m px py =
               (if \<exists>r \<in> set region. fill_covers tw th r (int px) (int py) then 255 else 0)"
    if "px < tw" "py < th" for px py
  proof -
    have "(int py + 1) * stride \<le> int th * stride"
      using that(2) s0 by (intro mult_right_mono) simp_all
    then have "int py * stride + stride \<le> int (length d)"
      by (simp add: len algebra_simps)
    then have rng: "int py * stride + int px < int (length d)"
      using that(1) sw by linarith
    have idx: "nat (int py * stride + int px) = py * nat stride + px"
      using s0 by (simp add: nat_add_distrib nat_mult_distrib)
    have nn: "0 \<le> int py * stride + int px" using s0 by simp
    have "nat (int py * stride + int px) < length d"
      using rng nn by (simp add: nat_less_iff)
    then have zero: "d ! nat (int py * stride + int px) = 0"
      by (simp add: d_def)
    have "d' ! nat (int py * stride + int px) =
            (if \<exists>r \<in> set region. fill_covers tw th r (int px) (int py) then 255
             else d ! nat (int py * stride + int px))"
      using d'n [of "int px" "int py"] that(1) sw rng by simp
    then have "d' ! nat (int py * stride + int px) =
            (if \<exists>r \<in> set region. fill_covers tw th r (int px) (int py) then 255 else 0)"
      unfolding zero .
    then show ?thesis
      unfolding idx by (simp add: mask_pixel_def m_def)
  qed
  have size: "mask_tex_width m = tw" "mask_tex_height m = th"
    by (simp_all add: m_def)
  show ?thesis
    unfolding tw_def [symmetric] th_def [symmetric]
    using run size pix by blast
qed

lemma fill_covers_inside:
  assumes "rect_x r < int tw" and "rect_y r < int th"
    and "0 \<le> px" and "px < int tw" and "0 \<le> py" and "py < int th"
  shows "fill_covers tw th r px py \<longleftrightarrow> (px, py) \<in> rect_points r"
  using assms by (auto simp add: fill_covers_def CLAMP_def Let_def in_rect_points)

text \<open>
  What the fill does build, for a texture of positive size and no overlay: it never
  writes outside the buffer, and the mask is 255 on the pixels between the clamped edges
  of some shape rectangle and 0 elsewhere (\<open>ensure_mask_pixels\<close>).  When every shape
  rectangle starts left of the right edge and above the bottom edge of the texture,
  these are the pixels of the shape region inside the texture.
\<close>

lemma ensure_mask_region_pixels:
  assumes tex: "texture priv = Some tex"
    and w: "0 < cogl_texture_get_width tex" and h: "0 < cogl_texture_get_height tex"
    and shape: "shape_region priv = Some region"
    and overlay: "overlay_region priv = None"
    and nomask: "mask_texture priv = None"
    and inside: "\<forall>r \<in> set region. rect_x r < int (cogl_texture_get_width tex) \<and>
                                  rect_y r < int (cogl_texture_get_height tex)"
  shows "\<exists>m. meta_shaped_texture_ensure_mask priv =
             Inr (priv\<lparr>mask_texture := Some m, mask_width := cogl_texture_get_width tex,
                       mask_height := cogl_texture_get_height tex\<rparr>, []) \<and>
           mask_tex_width m = cogl_texture_get_width tex \<and>
           mask_tex_height m = cogl_texture_get_height tex \<and>
           (\<forall>px py. px < cogl_texture_get_width tex \<and> py < cogl_texture_get_height tex \<longrightarrow>
              mask_pixel m px py =
                (if (int px, int py) \<in> region_points region then 255 else 0))"
proof -
  have cov: "(\<exists>r \<in> set region. fill_covers (cogl_texture_get_width tex)
                (cogl_texture_get_height tex) r (int px) (int py))
             \<longleftrightarrow> (int px, int py) \<in> region_points region"
    if "px < cogl_texture_get_width tex" "py < cogl_texture_get_height tex" for px py
    using inside that fill_covers_inside [of _ "cogl_texture_get_width tex"
        "cogl_texture_get_height tex" "int px" "int py"]
    by (auto simp add: region_points_def)
  obtain m where m: "meta_shaped_texture_ensure_mask priv =
             Inr (priv\<lparr>mask_texture := Some m, mask_width := cogl_texture_get_width tex,
                       mask_height := cogl_texture_get_height tex\<rparr>, [])"
    "mask_tex_width m = cogl_texture_get_width tex"
    "mask_tex_height m = cogl_texture_get_height tex"
    and pix: "\<And>px py. px < cogl_texture_get_width tex \<Longrightarrow> py < cogl_texture_get_height tex \<Longrightarrow>
              mask_pixel m px py =
                (if \<exists>r \<in> set region. fill_covers (cogl_texture_get_width tex)
                       (cogl_texture_get_height tex) r (int px) (int py)
                 then 255 else 0)"
    using ensure_mask_pixels [OF tex w h shape overlay nomask] by blast
  have "mask_pixel m px py = (if (int px, int py) \<in> region_points region then 255 else 0)"
    if "px < cogl_texture_get_width tex" "py < cogl_texture_get_height tex" for px py
    using pix [OF that] cov [OF that] by simp
  then show ?thesis using m by blast
qed

text \<open>
  Claim C1 says that a rectangle of the shape region that lies outside the texture
  gives the mask no opaque pixel.  The fill clamps the left edge of a rectangle to
  \<open>tex_width - 1\<close> and its top edge to \<open>tex_height - 1\<close>, so a rectangle to the right of
  the texture or below it fills the last column or row.  On a 4 by 2 texture the shape
  rectangle at (6, 0) of size 2 by 2, which has no pixel inside the texture, makes the
  pixels (3, 0) and (3, 1) of the mask opaque.
\<close>

theorem ensure_mask_outside_rectangle:
  "meta_shaped_texture_ensure_mask
     (meta_shaped_texture_init\<lparr>
        texture := Some \<lparr> cogl_texture_get_width = 4, cogl_texture_get_height = 2,
                           meta_texture_rectangle_check = False \<rparr>,
        shape_region := Some [\<lparr> rect_x = 6, rect_y = 0, rect_width = 2, rect_height = 2 \<rparr>]\<rparr>)
   = Inr (meta_shaped_texture_init\<lparr>
        texture := Some \<lparr> cogl_texture_get_width = 4, cogl_texture_get_height = 2,
                           meta_texture_rectangle_check = False \<rparr>,
        shape_region := Some [\<lparr> rect_x = 6, rect_y = 0, rect_width = 2, rect_height = 2 \<rparr>],
        mask_texture := Some \<lparr> mask_tex_width = 4, mask_tex_height = 2, mask_tex_stride = 4,
                                mask_tex_data = [0, 0, 0, 255, 0, 0, 0, 255],
                                mask_tex_rectangle = False \<rparr>,
        mask_width := 4, mask_height := 2\<rparr>, []) \<and>
   mask_pixel \<lparr> mask_tex_width = 4, mask_tex_height = 2, mask_tex_stride = 4,
                mask_tex_data = [0, 0, 0, 255, 0, 0, 0, 255],
                mask_tex_rectangle = False \<rparr> 3 0 = 255 \<and>
   region_points [\<lparr> rect_x = 6, rect_y = 0, rect_width = 2, rect_height = 2 \<rparr>]
     \<inter> rect_points \<lparr> rect_x = 0, rect_y = 0, rect_width = 4, rect_height = 2 \<rparr> = {}"
proof -
  have fill: "fill_rectangles (replicate 8 0)
      [\<lparr> rect_x = 6, rect_y = 0, rect_width = 2, rect_height = 2 \<rparr>] 4 2 4
      = Inr [0, 0, 0, 255, 0, 0, 0, 255]"
    by code_simp
  have pts: "region_points [\<lparr> rect_x = 6, rect_y = 0, rect_width = 2, rect_height = 2 \<rparr>]
     \<inter> rect_points \<lparr> rect_x = 0, rect_y = 0, rect_width = 4, rect_height = 2 \<rparr> = {}"
    by (auto simp add: region_points_def in_rect_points)
  show ?thesis
    using pts
    by (simp add: meta_shaped_texture_ensure_mask_def meta_shaped_texture_init_def Let_def
        cairo_format_stride_for_width_A8_def fill install_overlay_path_def mask_pixel_def
        del: fill_rectangles.simps)
qed

theorem ensure_mask_outside_rectangle_witness:
  "(case meta_shaped_texture_ensure_mask
     (meta_shaped_texture_init\<lparr>
        texture := Some \<lparr> cogl_texture_get_width = 4, cogl_texture_get_height = 2,
                           meta_texture_rectangle_check = False \<rparr>,
        shape_region := Some [\<lparr> rect_x = 6, rect_y = 0, rect_width = 2, rect_height = 2 \<rparr>]\<rparr>) of
      Inl e \<Rightarrow> False
    | Inr (priv, calls) \<Rightarrow>
        map_option mask_tex_data (mask_texture priv) = Some [0, 0, 0, 255, 0, 0, 0, 255])"
  using ensure_mask_outside_rectangle by simp

subsection \<open>The paint as a whole\<close>


lemma select_paint_texture_frame:
  "select_paint_texture priv now tower_tex new_id = (t, priv') \<Longrightarrow>
   clip_region priv' = clip_region priv \<and> tex_width priv' = tex_width priv \<and>
   tex_height priv' = tex_height priv \<and> unobscured_region priv' = unobscured_region priv"
  by (auto simp add: select_paint_texture_def Let_def split: option.splits if_splits)

lemma paint_rectangles_cong:
  "clip_region p = clip_region q \<Longrightarrow> tex_width p = tex_width q \<Longrightarrow> tex_height p = tex_height q \<Longrightarrow>
   paint_rectangles F p alloc = paint_rectangles F q alloc"
  by (simp add: paint_rectangles_def split: option.splits)

lemma ensure_mask_frame:
  assumes "meta_shaped_texture_ensure_mask priv = Inr (priv', calls)"
  shows "clip_region priv' = clip_region priv \<and> tex_width priv' = tex_width priv \<and>
         tex_height priv' = tex_height priv \<and> shape_region priv' = shape_region priv \<and>
         unobscured_region priv' = unobscured_region priv"
proof (cases "texture priv")
  case None
  then show ?thesis using assms by (simp add: meta_shaped_texture_ensure_mask_def)
next
  case (Some tex)
  obtain p1 c1 where d: "(if mask_texture priv \<noteq> None \<and>
        (mask_width priv \<noteq> cogl_texture_get_width tex \<or>
         mask_height priv \<noteq> cogl_texture_get_height tex)
      then meta_shaped_texture_dirty_mask priv else (priv, [])) = (p1, c1)"
    by (cases "(if mask_texture priv \<noteq> None \<and>
        (mask_width priv \<noteq> cogl_texture_get_width tex \<or>
         mask_height priv \<noteq> cogl_texture_get_height tex)
      then meta_shaped_texture_dirty_mask priv else (priv, []))")
  have f1: "clip_region p1 = clip_region priv \<and> tex_width p1 = tex_width priv \<and>
         tex_height p1 = tex_height priv \<and> shape_region p1 = shape_region priv \<and>
         unobscured_region p1 = unobscured_region priv"
    using d
    by (cases "mask_texture priv"; cases "pipeline priv")
      (auto simp add: meta_shaped_texture_dirty_mask_def split: if_splits)
  have "clip_region priv' = clip_region p1 \<and> tex_width priv' = tex_width p1 \<and>
         tex_height priv' = tex_height p1 \<and> shape_region priv' = shape_region p1 \<and>
         unobscured_region priv' = unobscured_region p1"
    using assms Some d
    by (auto simp add: meta_shaped_texture_ensure_mask_def Let_def
        split: if_splits option.splits sum.splits)
  then show ?thesis using f1 by simp
qed

lemma paint_pipeline_frame:
  assumes "paint_pipeline priv paint_tex = Inr priv'"
  shows "clip_region priv' = clip_region priv \<and> tex_width priv' = tex_width priv \<and>
         tex_height priv' = tex_height priv \<and> unobscured_region priv' = unobscured_region priv"
proof (cases "shape_region priv")
  case None
  then show ?thesis using assms by (auto simp add: paint_pipeline_def Let_def)
next
  case (Some region)
  then obtain p1 c1 where e: "meta_shaped_texture_ensure_mask priv = Inr (p1, c1)"
    and p: "priv' = p1\<lparr>pipeline := Some ((case pipeline p1 of None \<Rightarrow> cogl_pipeline_new | Some p \<Rightarrow> p)
               \<lparr>layer1 := mask_texture p1, layer0 := Some paint_tex\<rparr>)\<rparr>"
    using assms by (auto simp add: paint_pipeline_def Let_def split: sum.splits)
  show ?thesis
    using ensure_mask_frame [OF e] by (simp add: p)
qed

lemma paint_draws:
  assumes "meta_shaped_texture_paint F priv now tower_tex new_id alloc = Inr (priv', draws)"
  shows "draws = [] \<or> draws = paint_rectangles F priv alloc"
proof -
  obtain t p1 where s: "select_paint_texture priv now tower_tex new_id = (t, p1)"
    by (cases "select_paint_texture priv now tower_tex new_id")
  note f1 = select_paint_texture_frame [OF s]
  show ?thesis
  proof (cases "draws = []")
    case True
    then show ?thesis by simp
  next
    case False
    then obtain paint_tex p2 where t: "t = Some paint_tex"
      and pp: "paint_pipeline p1 paint_tex = Inr p2"
      and dr: "draws = paint_rectangles F p2 alloc"
      using assms s
      by (auto simp add: meta_shaped_texture_paint_def split: if_splits option.splits sum.splits)
    note f2 = paint_pipeline_frame [OF pp]
    have "paint_rectangles F p2 alloc = paint_rectangles F priv alloc"
      using f1 f2 by (intro paint_rectangles_cong) simp_all
    then show ?thesis using dr by simp
  qed
qed

subsection \<open>The obscured query\<close>


















end
